theory Spec2Isabelle
  imports Complex_Main "HOL-Library.Word" "HOL-Library.AList"
begin

section \<open>Common data: buffers and insertion-ordered maps\<close>

text \<open>
  A Node \<open>Buffer\<close> is a list of bytes.  A JavaScript \<open>Map\<close> iterates in insertion order,
  \<open>set\<close> on a present key replaces the value in place and on an absent key appends, so a
  \<open>Map\<close> is an association list handled with \<open>map_of\<close>, \<open>AList.update\<close> and
  \<open>AList.delete\<close>; its \<open>size\<close> is the length of the list.
\<close>

type_synonym byte = "8 word"
type_synonym buffer = "byte list"
type_synonym ('k, 'v) js_map = "('k \<times> 'v) list"

definition map_has :: "('k, 'v) js_map \<Rightarrow> 'k \<Rightarrow> bool" where
  "map_has m k = (map_of m k \<noteq> None)"

definition map_set :: "'k \<Rightarrow> 'v \<Rightarrow> ('k, 'v) js_map \<Rightarrow> ('k, 'v) js_map" where
  "map_set k v m = AList.update k v m"

definition map_delete :: "'k \<Rightarrow> ('k, 'v) js_map \<Rightarrow> ('k, 'v) js_map" where
  "map_delete k m = AList.delete k m"

definition map_size :: "('k, 'v) js_map \<Rightarrow> nat" where
  "map_size m = length m"

text \<open>\<open>buf.fill(0)\<close>: every byte of the buffer becomes zero, the length stays.\<close>

definition fill0 :: "buffer \<Rightarrow> buffer" where
  "fill0 b = replicate (length b) 0"

section \<open>circuits.cjs: the circuit registry\<close>

text \<open>
  A circuit object as \<open>registerCircuit\<close> builds it.  WebSockets are handles (numbers); the
  \<open>readyState\<close> of each socket lives in a store of the registry state, since a socket is shared
  between the circuit and the network layer.  \<open>Date.now()\<close> is the argument \<open>now\<close>.
\<close>

record circuit =
  circuitId :: "32 word"
  rx :: buffer
  tx :: buffer
  inboundWs :: nat
  outboundWs :: "nat option"
  lastActivity :: int
  nextHop :: "string option"
  rendezvousPairId :: "32 word option"

record registry =
  circuits :: "(32 word, circuit) js_map"
  readyState :: "nat \<Rightarrow> nat"
  maxCircuits :: nat
  sessionTtl :: int

definition registerCircuit ::
  "int \<Rightarrow> registry \<Rightarrow> 32 word \<Rightarrow> buffer \<Rightarrow> buffer \<Rightarrow> nat \<Rightarrow> bool \<times> registry" where
  "registerCircuit now st cid r t ws =
     (if map_size (circuits st) \<ge> maxCircuits st then (False, st)
      else (True, st\<lparr>circuits := map_set cid
              \<lparr>circuitId = cid, rx = r, tx = t, inboundWs = ws, outboundWs = None,
               lastActivity = now, nextHop = None, rendezvousPairId = None\<rparr> (circuits st)\<rparr>))"

text \<open>Mutating a field of the circuit object stored under a key.\<close>

definition modify_circuit :: "32 word \<Rightarrow> (circuit \<Rightarrow> circuit) \<Rightarrow> registry \<Rightarrow> registry" where
  "modify_circuit cid f st =
     (case map_of (circuits st) cid of
        None \<Rightarrow> st
      | Some c \<Rightarrow> st\<lparr>circuits := map_set cid (f c) (circuits st)\<rparr>)"

definition getCircuit :: "int \<Rightarrow> registry \<Rightarrow> 32 word \<Rightarrow> circuit option \<times> registry" where
  "getCircuit now st cid =
     (case map_of (circuits st) cid of
        None \<Rightarrow> (None, st)
      | Some c \<Rightarrow> (Some (c\<lparr>lastActivity := now\<rparr>),
                   modify_circuit cid (\<lambda>c. c\<lparr>lastActivity := now\<rparr>) st))"

text \<open>\<open>ws.close()\<close> on a socket that is connecting (0) or open (1) moves it to closing (2).\<close>

definition ws_close :: "nat \<Rightarrow> registry \<Rightarrow> registry" where
  "ws_close w st = st\<lparr>readyState := (readyState st)(w := 2)\<rparr>"

definition close_outbound :: "circuit \<Rightarrow> registry \<Rightarrow> registry" where
  "close_outbound c st =
     (case outboundWs c of
        None \<Rightarrow> st
      | Some w \<Rightarrow> if readyState st w \<le> 1 then ws_close w st else st)"

definition zero_keys :: "32 word \<Rightarrow> registry \<Rightarrow> registry" where
  "zero_keys cid st = modify_circuit cid (\<lambda>c. c\<lparr>rx := fill0 (rx c), tx := fill0 (tx c)\<rparr>) st"

definition remove_circuit :: "32 word \<Rightarrow> registry \<Rightarrow> registry" where
  "remove_circuit cid st = st\<lparr>circuits := map_delete cid (circuits st)\<rparr>"

text \<open>
  \<open>destroyCircuit\<close> calls itself on \<open>pair.circuitId\<close>.  Nothing in the types bounds that
  recursion, so the function is defined in the option monad: \<open>None\<close> is a call that never
  returns.  The test \<open>if (circuit.rendezvousPairId)\<close> is JavaScript truthiness: \<open>null\<close> and the
  number 0 both fail it.
\<close>

partial_function (option) destroyCircuit :: "registry \<Rightarrow> 32 word \<Rightarrow> registry option" where
  "destroyCircuit st cid =
     (case map_of (circuits st) cid of
        None \<Rightarrow> Some st
      | Some c \<Rightarrow>
          (case rendezvousPairId c of
             None \<Rightarrow> Some (remove_circuit cid (zero_keys cid (close_outbound c st)))
           | Some p \<Rightarrow>
               if p = 0 then Some (remove_circuit cid (zero_keys cid (close_outbound c st)))
               else
                 (case map_of (circuits (zero_keys cid (close_outbound c st))) p of
                    None \<Rightarrow> Some (remove_circuit cid (zero_keys cid (close_outbound c st)))
                  | Some pair \<Rightarrow>
                      Option.bind
                        (destroyCircuit
                           (modify_circuit p (\<lambda>c. c\<lparr>rendezvousPairId := None\<rparr>)
                              (zero_keys cid (close_outbound c st)))
                           (circuitId pair))
                        (\<lambda>st'. Some (remove_circuit cid st')))))"

text \<open>Well-formed registries: every circuit is stored under its own \<open>circuitId\<close>.\<close>

definition wf_registry :: "registry \<Rightarrow> bool" where
  "wf_registry st = (\<forall>(k, c) \<in> set (circuits st). circuitId c = k)"

section \<open>rendezvous.cjs: cookie-indexed pairing\<close>

text \<open>\<open>Buffer.toString('hex')\<close>: two lower-case hexadecimal digits for every byte.\<close>

definition hex_digit :: "nat \<Rightarrow> char" where
  "hex_digit n = ''0123456789abcdef'' ! (n mod 16)"

definition to_hex :: "buffer \<Rightarrow> string" where
  "to_hex b = concat (map (\<lambda>x. [hex_digit (unat x div 16), hex_digit (unat x mod 16)]) b)"

text \<open>\<open>Buffer.from(s, 'hex')\<close>: decoding stops at the first pair that is not hexadecimal.\<close>

definition hex_value :: "char \<Rightarrow> nat option" where
  "hex_value c =
     (if c \<in> set ''0123456789'' then Some (of_char c - 48)
      else if c \<in> set ''abcdef'' then Some (of_char c - 87)
      else if c \<in> set ''ABCDEF'' then Some (of_char c - 55)
      else None)"

fun from_hex :: "string \<Rightarrow> buffer" where
  "from_hex (a # b # rest) =
     (case (hex_value a, hex_value b) of
        (Some x, Some y) \<Rightarrow> of_nat (16 * x + y) # from_hex rest
      | _ \<Rightarrow> [])"
| "from_hex _ = []"

record pending =
  p_circuitId :: "32 word"
  p_timestamp :: int

record rendezvous =
  reg :: registry
  pendingRendezvous :: "(string, pending) js_map"

definition MAX_PENDING :: nat where "MAX_PENDING = 10000"
definition COOKIE_TTL_MS :: int where "COOKIE_TTL_MS = 30000"

datatype rdv_error = Cookie_must_be_20_bytes | Cookie_already_in_use | Too_many_pending
  | Cookie_not_found_or_expired | Circuit_no_longer_exists

text \<open>The result object \<open>{ success, error, visitorCircuitId }\<close>: \<open>Inl\<close> is \<open>success: false\<close>.\<close>

definition establishRendezvous ::
  "int \<Rightarrow> rendezvous \<Rightarrow> 32 word \<Rightarrow> buffer \<Rightarrow> (rdv_error + unit) \<times> rendezvous" where
  "establishRendezvous now s cid cookie =
     (if length cookie \<noteq> 20 then (Inl Cookie_must_be_20_bytes, s)
      else if map_has (pendingRendezvous s) (to_hex cookie) then (Inl Cookie_already_in_use, s)
      else if map_size (pendingRendezvous s) \<ge> MAX_PENDING then (Inl Too_many_pending, s)
      else (Inr (),
            s\<lparr>pendingRendezvous :=
                 map_set (to_hex cookie) \<lparr>p_circuitId = cid, p_timestamp = now\<rparr>
                   (pendingRendezvous s)\<rparr>))"

definition joinRendezvous ::
  "int \<Rightarrow> rendezvous \<Rightarrow> 32 word \<Rightarrow> buffer \<Rightarrow> (rdv_error + 32 word) \<times> rendezvous" where
  "joinRendezvous now s hostCircuitId cookie =
     (case map_of (pendingRendezvous s) (to_hex cookie) of
        None \<Rightarrow> (Inl Cookie_not_found_or_expired, s)
      | Some pend \<Rightarrow>
          let s1 = s\<lparr>pendingRendezvous := map_delete (to_hex cookie) (pendingRendezvous s)\<rparr>;
              (visitorCircuit, r1) = getCircuit now (reg s1) (p_circuitId pend);
              (hostCircuit, r2) = getCircuit now r1 hostCircuitId
          in if visitorCircuit = None \<or> hostCircuit = None
             then (Inl Circuit_no_longer_exists, s1\<lparr>reg := r2\<rparr>)
             else
               let r3 = modify_circuit (p_circuitId pend)
                          (\<lambda>c. c\<lparr>rendezvousPairId := Some hostCircuitId\<rparr>) r2;
                   r4 = modify_circuit hostCircuitId
                          (\<lambda>c. c\<lparr>rendezvousPairId := Some (p_circuitId pend)\<rparr>) r3
               in (Inr (p_circuitId pend), s1\<lparr>reg := r4\<rparr>))"

definition cleanupPendingRendezvous :: "int \<Rightarrow> rendezvous \<Rightarrow> rendezvous" where
  "cleanupPendingRendezvous now s =
     s\<lparr>pendingRendezvous :=
         filter (\<lambda>(cookieHex, entry). \<not> (now - p_timestamp entry > COOKIE_TTL_MS))
           (pendingRendezvous s)\<rparr>"


section \<open>A concrete relay: two circuits and one cookie\<close>

definition ex_circuit :: "32 word \<Rightarrow> circuit" where
  "ex_circuit cid = \<lparr>circuitId = cid, rx = [1, 2], tx = [3, 4], inboundWs = unat cid,
     outboundWs = None, lastActivity = 0, nextHop = None, rendezvousPairId = None\<rparr>"

definition ex_registry :: "32 word \<Rightarrow> 32 word \<Rightarrow> registry" where
  "ex_registry a b = \<lparr>circuits = [(a, ex_circuit a), (b, ex_circuit b)], readyState = (\<lambda>_. 1),
     maxCircuits = 10000, sessionTtl = 300000\<rparr>"

definition ex_cookie :: buffer where
  "ex_cookie = replicate 20 0xAB"

definition ex_waiting :: "32 word \<Rightarrow> 32 word \<Rightarrow> rendezvous" where
  "ex_waiting a b = \<lparr>reg = ex_registry a b,
     pendingRendezvous = [(''abababababababababababababababababababab'',
                           \<lparr>p_circuitId = a, p_timestamp = 1000\<rparr>)]\<rparr>"

definition ex_paired :: "32 word \<Rightarrow> 32 word \<Rightarrow> registry" where
  "ex_paired a b =
     \<lparr>circuits = [(a, (ex_circuit a)\<lparr>lastActivity := 2000, rendezvousPairId := Some b\<rparr>),
                  (b, (ex_circuit b)\<lparr>lastActivity := 2000, rendezvousPairId := Some a\<rparr>)],
      readyState = (\<lambda>_. 1), maxCircuits = 10000, sessionTtl = 300000\<rparr>"

section \<open>tracker.cjs: the room tracker\<close>

text \<open>
  Room ids are the strings the maps are keyed by.  An entry-relay URL, a JavaScript string,
  is kept as the UTF-8 bytes of that string, so \<open>Buffer.from(s, 'utf8')\<close> is the list itself.
  \<open>buf.toString('utf8')\<close> replaces every byte sequence that is not valid UTF-8 by U+FFFD; it is
  a function of the platform, the parameter \<open>toString_utf8\<close>, which gives the UTF-8 bytes of the
  decoded string (the buffer itself when it holds valid UTF-8).  Local expiry times are
  integers (milliseconds); a federated room expires at \<open>now + roomTtlMs * 1.5\<close>, a rational.
  \<open>trackerDb.persistRoom\<close> is a fire-and-forget call to an external store: the calls are
  logged in the state, with the metadata as the blob whose base64 text is passed.
\<close>

record room =
  metadata :: buffer
  entryRelay :: buffer
  isPrivate :: bool
  createdAt :: int
  expiresAt :: int

record federated_room =
  f_metadata :: buffer
  f_entryRelay :: buffer
  sourceRelay :: string
  f_expiresAt :: rat

record circuit_session =
  s_ws :: "nat option"
  s_circuitId :: "buffer option"

record persisted =
  db_roomId :: string
  db_metadata :: buffer
  db_entryRelay :: buffer
  db_isPrivate :: bool
  db_federated :: bool
  db_sourceRelay :: string
  db_expiresAt :: rat

record tracker =
  rooms :: "(string, room) js_map"
  circuitSessions :: "(string, circuit_session) js_map"
  federatedRooms :: "(string, federated_room) js_map"
  roomTtlMs :: int
  maxRooms :: nat
  persistRoom_calls :: "persisted list"

definition MSG_RESPONSE :: byte where "MSG_RESPONSE = 0x42"

text \<open>
  \<open>buf.readUInt16BE(off)\<close> and \<open>buf.readUInt32BE(off)\<close>; every call in the tracker is guarded
  by a length test that keeps the offsets inside the buffer.
\<close>

definition readUInt16BE :: "buffer \<Rightarrow> nat \<Rightarrow> nat" where
  "readUInt16BE b off = unat (b ! off) * 256 + unat (b ! (off + 1))"

definition readUInt32BE :: "buffer \<Rightarrow> nat \<Rightarrow> nat" where
  "readUInt32BE b off =
     unat (b ! off) * 16777216 + unat (b ! (off + 1)) * 65536
       + unat (b ! (off + 2)) * 256 + unat (b ! (off + 3))"

text \<open>\<open>buf.subarray(a, b)\<close> with \<open>a \<le> b\<close>; both ends are clamped to the buffer.\<close>

definition subarray :: "buffer \<Rightarrow> nat \<Rightarrow> nat \<Rightarrow> buffer" where
  "subarray b from to = take (to - from) (drop from b)"

text \<open>REGISTER (0x40): type(1) + flags(1) + roomId(32) + relayLen(2 BE) + relay + metadata.\<close>

definition handleRegister ::
  "(buffer \<Rightarrow> buffer) \<Rightarrow> int \<Rightarrow> tracker \<Rightarrow> buffer \<Rightarrow> nat option \<Rightarrow> buffer option
     \<Rightarrow> buffer option \<times> tracker" where
  "handleRegister toString_utf8 now tr data ws cid =
     (if length data < 36 then (None, tr)
      else
        let flags = data ! 1;
            isPrivate = (and flags 0x01 \<noteq> 0);
            roomId = to_hex (subarray data 2 34);
            relayLen = readUInt16BE data 34
        in if length data < 36 + relayLen then (None, tr)
           else
             let entryRelay = toString_utf8 (subarray data 36 (36 + relayLen));
                 metadata = drop (36 + relayLen) data
             in if \<not> map_has (rooms tr) roomId \<and> map_size (rooms tr) \<ge> maxRooms tr
                then (Some [MSG_RESPONSE, 0x00], tr)
                else
                  let expiresAt = now + roomTtlMs tr;
                      r = \<lparr>metadata = metadata, entryRelay = entryRelay, isPrivate = isPrivate,
                           createdAt = (case map_of (rooms tr) roomId of
                                          Some old \<Rightarrow> createdAt old | None \<Rightarrow> now),
                           expiresAt = expiresAt\<rparr>
                  in (Some [MSG_RESPONSE, 0x01],
                      tr\<lparr>rooms := map_set roomId r (rooms tr),
                         circuitSessions :=
                           map_set roomId \<lparr>s_ws = ws, s_circuitId = cid\<rparr> (circuitSessions tr),
                         persistRoom_calls := persistRoom_calls tr @
                           [\<lparr>db_roomId = roomId, db_metadata = metadata, db_entryRelay = entryRelay,
                             db_isPrivate = isPrivate, db_federated = False, db_sourceRelay = [],
                             db_expiresAt = of_int expiresAt\<rparr>]\<rparr>))"

text \<open>HEARTBEAT (0x43): type(1) + roomId(32).\<close>

definition handleHeartbeat :: "int \<Rightarrow> tracker \<Rightarrow> buffer \<Rightarrow> buffer option \<times> tracker" where
  "handleHeartbeat now tr data =
     (if length data < 33 then (None, tr)
      else
        let roomId = to_hex (subarray data 1 33)
        in case map_of (rooms tr) roomId of
             None \<Rightarrow> (Some [MSG_RESPONSE, 0x00], tr)
           | Some r \<Rightarrow>
               let expiresAt = now + roomTtlMs tr
               in (Some [MSG_RESPONSE, 0x01],
                   tr\<lparr>rooms := map_set roomId (r\<lparr>expiresAt := expiresAt\<rparr>) (rooms tr),
                      persistRoom_calls := persistRoom_calls tr @
                        [\<lparr>db_roomId = roomId, db_metadata = metadata r,
                          db_entryRelay = entryRelay r, db_isPrivate = isPrivate r,
                          db_federated = False, db_sourceRelay = [],
                          db_expiresAt = of_int expiresAt\<rparr>]\<rparr>))"

text \<open>
  QUERY (0x41): type(1) + cursor(4 BE) + count(2 BE).  \<open>publicRooms\<close> is the list the two
  loops of \<open>handleQuery\<close> collect; of each pushed object the fields read later are kept.
\<close>

record public_room =
  pr_roomId :: string
  pr_metadata :: buffer
  pr_entryRelay :: buffer

definition publicRooms :: "int \<Rightarrow> tracker \<Rightarrow> public_room list" where
  "publicRooms now tr =
     map (\<lambda>(roomId, r). \<lparr>pr_roomId = roomId, pr_metadata = metadata r,
                           pr_entryRelay = entryRelay r\<rparr>)
       (filter (\<lambda>(roomId, r). \<not> isPrivate r \<and> \<not> expiresAt r \<le> now) (rooms tr))
     @ map (\<lambda>(roomId, r). \<lparr>pr_roomId = roomId, pr_metadata = f_metadata r,
                             pr_entryRelay = f_entryRelay r\<rparr>)
       (filter (\<lambda>(roomId, r). \<not> f_expiresAt r \<le> of_int now \<and> \<not> map_has (rooms tr) roomId)
          (federatedRooms tr))"

text \<open>
  The response buffer, field by field in wire order: after the type byte 0x42 the header
  carries the next cursor (4 bytes) and the entry count (2 bytes); each entry is
  \<open>Buffer.from(roomId, 'hex')\<close> (32 bytes for a well-formed id), the relay length (2 bytes),
  the relay, the metadata length (2 bytes) and the metadata.  \<open>writeUInt16BE\<close> and \<open>writeUInt32BE\<close> throw a \<open>RangeError\<close>
  on a value that does not fit; the exception leaves \<open>handleQuery\<close>.
\<close>

record query_entry =
  e_roomId :: buffer
  e_relayLen :: nat
  e_relay :: buffer
  e_metaLen :: nat
  e_metadata :: buffer

record query_response =
  nextCursor :: nat
  roomCount :: nat
  entries :: "query_entry list"

datatype js_error = RangeError

definition writeUInt16BE :: "nat \<Rightarrow> js_error + nat" where
  "writeUInt16BE v = (if v > 65535 then Inl RangeError else Inr v)"

definition writeUInt32BE :: "nat \<Rightarrow> js_error + nat" where
  "writeUInt32BE v = (if v > 4294967295 then Inl RangeError else Inr v)"

definition encode_entry :: "public_room \<Rightarrow> js_error + query_entry" where
  "encode_entry e =
     (case writeUInt16BE (length (pr_entryRelay e)) of
        Inl err \<Rightarrow> Inl err
      | Inr relayLen \<Rightarrow>
          (case writeUInt16BE (length (pr_metadata e)) of
             Inl err \<Rightarrow> Inl err
           | Inr metaLen \<Rightarrow>
               Inr \<lparr>e_roomId = from_hex (pr_roomId e), e_relayLen = relayLen,
                    e_relay = pr_entryRelay e,
                    e_metaLen = metaLen, e_metadata = pr_metadata e\<rparr>))"

fun encode_entries :: "public_room list \<Rightarrow> js_error + query_entry list" where
  "encode_entries [] = Inr []"
| "encode_entries (e # es) =
     (case encode_entry e of
        Inl err \<Rightarrow> Inl err
      | Inr x \<Rightarrow> (case encode_entries es of Inl err \<Rightarrow> Inl err | Inr xs \<Rightarrow> Inr (x # xs)))"

definition handleQuery :: "int \<Rightarrow> tracker \<Rightarrow> buffer \<Rightarrow> js_error + query_response option" where
  "handleQuery now tr data =
     (if length data < 7 then Inr None
      else
        let cursor = readUInt32BE data 1;
            count = (if readUInt16BE data 5 > 100 then 100 else readUInt16BE data 5);
            public = publicRooms now tr;
            start = min cursor (length public);
            slice = take count (drop start public);
            nextCursor = start + length slice
        in case encode_entries slice of
             Inl err \<Rightarrow> Inl err
           | Inr es \<Rightarrow>
               (case writeUInt32BE nextCursor of
                  Inl err \<Rightarrow> Inl err
                | Inr nc \<Rightarrow>
                    (case writeUInt16BE (length slice) of
                       Inl err \<Rightarrow> Inl err
                     | Inr n \<Rightarrow> Inr (Some \<lparr>nextCursor = nc, roomCount = n, entries = es\<rparr>))))"

text \<open>
  Federation.  A peer's room object has the three string fields of the JSDoc type; a missing
  or empty field is falsy.  \<open>peerRooms\<close> is \<open>None\<close> when the argument is not an array.
  \<open>Buffer.from(s, 'base64')\<close> is a function of the platform, the parameter \<open>from_base64\<close>.
\<close>

record peer_room =
  peer_roomId :: string
  peer_metadata :: string
  peer_entryRelay :: buffer

definition federate_one ::
  "(string \<Rightarrow> buffer) \<Rightarrow> string \<Rightarrow> rat \<Rightarrow> tracker \<Rightarrow> peer_room \<Rightarrow> tracker" where
  "federate_one from_base64 source expires tr p =
     (if peer_roomId p = [] \<or> peer_metadata p = [] \<or> peer_entryRelay p = [] then tr
      else if map_has (rooms tr) (peer_roomId p) then tr
      else tr\<lparr>federatedRooms :=
                 map_set (peer_roomId p)
                   \<lparr>f_metadata = from_base64 (peer_metadata p), f_entryRelay = peer_entryRelay p,
                    sourceRelay = source, f_expiresAt = expires\<rparr> (federatedRooms tr),
               persistRoom_calls := persistRoom_calls tr @
                 [\<lparr>db_roomId = peer_roomId p, db_metadata = from_base64 (peer_metadata p),
                   db_entryRelay = peer_entryRelay p, db_isPrivate = False, db_federated = True,
                   db_sourceRelay = source, db_expiresAt = expires\<rparr>]\<rparr>)"

definition setFederatedRooms ::
  "(string \<Rightarrow> buffer) \<Rightarrow> int \<Rightarrow> tracker \<Rightarrow> string \<Rightarrow> peer_room list option \<Rightarrow> tracker" where
  "setFederatedRooms from_base64 now tr source peerRooms =
     (case peerRooms of
        None \<Rightarrow> tr
      | Some ps \<Rightarrow>
          let tr1 = tr\<lparr>federatedRooms :=
                        filter (\<lambda>(roomId, r). sourceRelay r \<noteq> source) (federatedRooms tr)\<rparr>;
              ttl = of_int (roomTtlMs tr) * (3 / 2)
          in foldl (federate_one from_base64 source (of_int now + ttl)) tr1 ps)"

text \<open>
  A client paging through the directory: it sends QUERY with the cursor it holds, keeps the
  entries of the response, and stops at the first response that carries fewer entries than
  it asked for; otherwise it sends the returned next cursor.  \<open>None\<close> is a client that never
  finishes (or a request that got no response).
\<close>

definition writeUInt16BE_bytes :: "nat \<Rightarrow> buffer" where
  "writeUInt16BE_bytes v = [of_nat (v div 256), of_nat v]"

definition writeUInt32BE_bytes :: "nat \<Rightarrow> buffer" where
  "writeUInt32BE_bytes v =
     [of_nat (v div 16777216), of_nat (v div 65536), of_nat (v div 256), of_nat v]"

definition query_message :: "nat \<Rightarrow> nat \<Rightarrow> buffer" where
  "query_message cursor count = 0x41 # writeUInt32BE_bytes cursor @ writeUInt16BE_bytes count"

partial_function (option) query_all ::
  "int \<Rightarrow> tracker \<Rightarrow> nat \<Rightarrow> nat \<Rightarrow> query_entry list list option" where
  "query_all now tr count cursor =
     (case handleQuery now tr (query_message cursor count) of
        Inl err \<Rightarrow> None
      | Inr None \<Rightarrow> None
      | Inr (Some r) \<Rightarrow>
          if roomCount r < count then Some [entries r]
          else Option.bind (query_all now tr count (nextCursor r))
                 (\<lambda>pages. Some (entries r # pages)))"

section \<open>crypto.cjs and relay.cjs: the packet dispatcher\<close>

text \<open>
  The libsodium primitives are parameters: the key exchange (\<open>None\<close> when it throws), the AEAD
  (decryption is \<open>None\<close> when verification throws) and the random generator.  The wrappers of
  \<open>crypto.cjs\<close> are defined over them.
\<close>

record sodium =
  crypto_kx_server_session_keys :: "buffer \<Rightarrow> buffer \<Rightarrow> buffer \<Rightarrow> (buffer \<times> buffer) option"
  crypto_aead_encrypt :: "buffer \<Rightarrow> buffer \<Rightarrow> buffer \<Rightarrow> buffer \<Rightarrow> buffer"
  crypto_aead_decrypt :: "buffer \<Rightarrow> buffer \<Rightarrow> buffer \<Rightarrow> buffer \<Rightarrow> buffer option"
  randombytes_buf :: "nat \<Rightarrow> buffer"

definition KX_PK_BYTES :: nat where "KX_PK_BYTES = 32"
definition NONCE_BYTES :: nat where "NONCE_BYTES = 24"
definition MAC_BYTES :: nat where "MAC_BYTES = 16"

definition encrypt :: "sodium \<Rightarrow> buffer \<Rightarrow> buffer \<Rightarrow> buffer \<Rightarrow> buffer" where
  "encrypt sod plaintext key aad =
     (let nonce = randombytes_buf sod NONCE_BYTES
      in nonce @ crypto_aead_encrypt sod plaintext aad nonce key)"

definition decrypt :: "sodium \<Rightarrow> buffer \<Rightarrow> buffer \<Rightarrow> buffer \<Rightarrow> buffer option" where
  "decrypt sod nonceAndCiphertext key aad =
     (if length nonceAndCiphertext < NONCE_BYTES + MAC_BYTES then None
      else crypto_aead_decrypt sod (drop NONCE_BYTES nonceAndCiphertext) aad
             (subarray nonceAndCiphertext 0 NONCE_BYTES) key)"

definition padPacket :: "sodium \<Rightarrow> buffer \<Rightarrow> nat \<Rightarrow> buffer" where
  "padPacket sod data targetSize =
     (if length data \<ge> targetSize then data
      else data @ randombytes_buf sod (targetSize - length data))"

text \<open>
  The relay: the circuit registry, the key pairs, the packet size, every buffer handed to
  \<open>ws.send\<close> (with the socket), and the calls of \<open>processMessage\<close> that \<open>setTimeout\<close> has queued.
\<close>

record keypair =
  publicKey :: buffer
  secretKey :: buffer

record dispatch =
  d_msgType :: byte
  d_nextHop :: "buffer option"
  d_payload :: buffer
  d_circuit :: "32 word"
  d_ws :: nat

record relay =
  table :: registry
  relayKeypair :: keypair
  previousKeypair :: "keypair option"
  packetSize :: nat
  sent :: "(nat \<times> buffer) list"
  scheduled :: "dispatch list"

text \<open>\<open>Buffer.alloc(n)\<close> followed by \<open>src.copy\<close> at offset 0: the first \<open>n\<close> bytes, zero-padded.\<close>

definition alloc_copy :: "nat \<Rightarrow> buffer \<Rightarrow> buffer" where
  "alloc_copy n src = take n (src @ replicate n 0)"

definition MAGIC :: buffer where
  "MAGIC = [0x53, 0x46, 0x50, 0x4B]"

definition MSG_HANDSHAKE_REPLY :: byte where "MSG_HANDSHAKE_REPLY = 0x02"

definition handleHandshake :: "int \<Rightarrow> sodium \<Rightarrow> relay \<Rightarrow> buffer \<Rightarrow> nat \<Rightarrow> nat \<Rightarrow> relay" where
  "handleHandshake now sod st rawData cid ws =
     (if length rawData < NONCE_BYTES + 4 + KX_PK_BYTES then st
      else
        let clientPk = subarray rawData (NONCE_BYTES + 4) (NONCE_BYTES + 4 + KX_PK_BYTES);
            keys = (case crypto_kx_server_session_keys sod (publicKey (relayKeypair st))
                           (secretKey (relayKeypair st)) clientPk of
                      Some k \<Rightarrow> Some k
                    | None \<Rightarrow>
                        (case previousKeypair st of
                           None \<Rightarrow> None
                         | Some prev \<Rightarrow>
                             crypto_kx_server_session_keys sod (publicKey prev) (secretKey prev)
                               clientPk))
        in case keys of
             None \<Rightarrow> st
           | Some (krx, ktx) \<Rightarrow>
               (case registerCircuit now (table st) (of_nat cid) krx ktx ws of
                  (False, _) \<Rightarrow> st
                | (True, tbl) \<Rightarrow>
                    let reply = MSG_HANDSHAKE_REPLY # alloc_copy KX_PK_BYTES (publicKey (relayKeypair st));
                        aad = writeUInt32BE_bytes cid;
                        encrypted = encrypt sod reply ktx aad;
                        packet = MAGIC @ alloc_copy KX_PK_BYTES (publicKey (relayKeypair st))
                                   @ subarray encrypted 0 NONCE_BYTES @ writeUInt32BE_bytes cid
                                   @ drop NONCE_BYTES encrypted
                    in st\<lparr>table := tbl,
                          sent := sent st @ [(ws, padPacket sod packet (packetSize st))]\<rparr>))"

text \<open>
  \<open>handlePacket\<close>.  The parse of the decrypted frame reads \<open>plaintext[1]\<close> and a 16-bit length at
  offset \<open>2 + nextHopLen\<close>; a frame too short for them makes \<open>readUInt16BE\<close> throw, which is the
  first component of the result.  The random jitter only delays the queued call.
\<close>

definition handlePacket ::
  "int \<Rightarrow> sodium \<Rightarrow> relay \<Rightarrow> buffer \<Rightarrow> nat \<Rightarrow> js_error option \<times> relay" where
  "handlePacket now sod st rawData ws =
     (if length rawData < NONCE_BYTES + 4 + MAC_BYTES + 1 then (None, st)
      else if rawData ! 0 = 0xFF then (None, st)
      else
        let cid = readUInt32BE rawData NONCE_BYTES;
            (found, tbl) = getCircuit now (table st) (of_nat cid)
        in case found of
             None \<Rightarrow> (None, handleHandshake now sod (st\<lparr>table := tbl\<rparr>) rawData cid ws)
           | Some c \<Rightarrow>
               let aad = writeUInt32BE_bytes cid;
                   encryptedPayload = subarray rawData 0 NONCE_BYTES @ drop (NONCE_BYTES + 4) rawData
               in (case decrypt sod encryptedPayload (rx c) aad of
                     None \<Rightarrow> (None, st\<lparr>table := tbl\<rparr>)
                   | Some plaintext \<Rightarrow>
                       if length plaintext < 2 \<or> length plaintext < 4 + unat (plaintext ! 1)
                       then (Some RangeError, st\<lparr>table := tbl\<rparr>)
                       else
                         let msgType = plaintext ! 0;
                             nextHopLen = unat (plaintext ! 1);
                             hop = (if nextHopLen > 0
                                    then Some (subarray plaintext 2 (2 + nextHopLen)) else None);
                             payloadLen = readUInt16BE plaintext (2 + nextHopLen);
                             payload = subarray plaintext (4 + nextHopLen)
                                         (4 + nextHopLen + payloadLen)
                         in (None, st\<lparr>table := tbl,
                                       scheduled := scheduled st @
                                         [\<lparr>d_msgType = msgType, d_nextHop = hop, d_payload = payload,
                                           d_circuit = circuitId c, d_ws = ws\<rparr>]\<rparr>)))"

text \<open>
  A relay with the two circuits of \<open>ex_registry\<close>, a stand-in for libsodium, a packet that is too
  short, a chaff packet and a handshake packet for the unregistered circuit id 9.
\<close>

definition ex_sodium :: sodium where
  "ex_sodium = \<lparr>crypto_kx_server_session_keys = (\<lambda>pk sk clientPk. Some (clientPk, pk)),
                crypto_aead_encrypt = (\<lambda>plaintext aad nonce key. plaintext @ replicate 16 0),
                crypto_aead_decrypt = (\<lambda>ciphertext aad nonce key. None),
                randombytes_buf = (\<lambda>n. replicate n 0x2A)\<rparr>"

definition ex_relay :: relay where
  "ex_relay = \<lparr>table = ex_registry 5 7,
               relayKeypair = \<lparr>publicKey = replicate 32 0x11, secretKey = replicate 32 0x22\<rparr>,
               previousKeypair = None, packetSize = 512, sent = [], scheduled = []\<rparr>"

definition ex_short_packet :: buffer where
  "ex_short_packet = replicate 44 0x01"

definition ex_chaff_packet :: buffer where
  "ex_chaff_packet = 0xFF # replicate 511 0x2A"

definition ex_handshake_packet :: buffer where
  "ex_handshake_packet = replicate 24 0x00 @ [0x00, 0x00, 0x00, 0x09] @ replicate 32 0x33"

text \<open>
  What a client reads back from a response entry, and the rooms that fit the 16-bit length
  fields of the wire format.
\<close>

definition entry_of :: "public_room \<Rightarrow> query_entry" where
  "entry_of p = \<lparr>e_roomId = from_hex (pr_roomId p), e_relayLen = length (pr_entryRelay p),
                 e_relay = pr_entryRelay p, e_metaLen = length (pr_metadata p),
                 e_metadata = pr_metadata p\<rparr>"

definition fits_wire :: "public_room \<Rightarrow> bool" where
  "fits_wire p = (length (pr_entryRelay p) \<le> 65535 \<and> length (pr_metadata p) \<le> 65535)"

text \<open>
  A directory with four local rooms (one private, one expired) and three federated rooms (one
  shadowed by a local room, one expired).
\<close>

definition mk_room :: "bool \<Rightarrow> int \<Rightarrow> room" where
  "mk_room private expires = \<lparr>metadata = [0x01, 0x02], entryRelay = [0x77, 0x73, 0x73],
     isPrivate = private, createdAt = 0, expiresAt = expires\<rparr>"

definition mk_federated :: "rat \<Rightarrow> federated_room" where
  "mk_federated expires = \<lparr>f_metadata = [0x03], f_entryRelay = [0x77, 0x73],
     sourceRelay = ''wss://r2'', f_expiresAt = expires\<rparr>"

definition ex_directory :: tracker where
  "ex_directory = \<lparr>rooms = [(''aa'', mk_room False 5000), (''bb'', mk_room True 5000),
                             (''cc'', mk_room False 900), (''dd'', mk_room False 5000)],
                    circuitSessions = [],
                    federatedRooms = [(''ee'', mk_federated 5000), (''aa'', mk_federated 5000),
                                      (''ff'', mk_federated 900)],
                    roomTtlMs = 120000, maxRooms = 50000, persistRoom_calls = []\<rparr>"





definition ex_base64 :: "string \<Rightarrow> buffer" where
  "ex_base64 s = (if s = ''AQ=='' then [0x01] else [])"

text \<open>
  A tracker holding one public room, one at capacity, and two messages for that room id.  The
  relay of the REGISTER message is ASCII, which \<open>toString('utf8')\<close> leaves as it is.
\<close>

definition ex_toString_utf8 :: "buffer \<Rightarrow> buffer" where
  "ex_toString_utf8 b = b"


definition ex_room_id :: string where
  "ex_room_id = to_hex (replicate 32 0xAB)"

definition ex_register_msg :: buffer where
  "ex_register_msg = [0x40, 0x00] @ replicate 32 0xAB @ [0x00, 0x03] @ [0x77, 0x73, 0x73] @ [0x09]"

definition ex_heartbeat_msg :: buffer where
  "ex_heartbeat_msg = 0x43 # replicate 32 0xAB"

definition ex_room :: room where
  "ex_room = \<lparr>metadata = [0x01], entryRelay = [0x77, 0x73], isPrivate = False,
              createdAt = 500, expiresAt = 120500\<rparr>"

definition ex_tracker :: tracker where
  "ex_tracker = \<lparr>rooms = [(ex_room_id, ex_room)], circuitSessions = [], federatedRooms = [],
                 roomTtlMs = 120000, maxRooms = 50000, persistRoom_calls = []\<rparr>"

definition ex_tracker_full :: tracker where
  "ex_tracker_full = \<lparr>rooms = [(''00'', ex_room)], circuitSessions = [], federatedRooms = [],
                 roomTtlMs = 120000, maxRooms = 1, persistRoom_calls = []\<rparr>"

text \<open>
  Two trackers as a peer's room list leaves them.  In the first the peer supplies one room
  whose metadata is the base64 text of 65538 zero bytes (87384 times the letter A; the
  stand-in decoder maps every four characters to three zero bytes).  In the second the
  tracker holds a local room and the peer supplies the same room id in upper case.
\<close>

definition ex_empty_tracker :: tracker where
  "ex_empty_tracker = \<lparr>rooms = [], circuitSessions = [], federatedRooms = [],
      roomTtlMs = 120000, maxRooms = 50000, persistRoom_calls = []\<rparr>"

definition ex_big_text :: string where
  "ex_big_text = replicate 87384 CHR ''A''"

definition ex_zero_base64 :: "string \<Rightarrow> buffer" where
  "ex_zero_base64 s = replicate (length s div 4 * 3) 0"

definition ex_big_list :: "peer_room list" where
  "ex_big_list = [\<lparr>peer_roomId = ex_room_id, peer_metadata = ex_big_text,
                    peer_entryRelay = [0x77, 0x73, 0x73]\<rparr>]"

definition ex_oversize :: tracker where
  "ex_oversize = setFederatedRooms ex_zero_base64 1000 ex_empty_tracker ''wss://r2'' (Some ex_big_list)"

definition ex_upper_id :: string where
  "ex_upper_id = concat (replicate 32 ''AB'')"

definition ex_shadowed :: tracker where
  "ex_shadowed = setFederatedRooms ex_base64 1000 ex_tracker ''wss://r2''
     (Some [\<lparr>peer_roomId = ex_upper_id, peer_metadata = ''AQ=='',
              peer_entryRelay = [0x77, 0x73, 0x73]\<rparr>])"

section \<open>gossip.cjs: announcement verification\<close>

text \<open>
  An announcement with the field types of its JSDoc: strings and a number (an integer
  timestamp in milliseconds).  Strings are lists of characters; an empty string and the
  number 0 are falsy.  Two functions of the platform are parameters: \<open>url_hostname\<close> is
  \<open>new URL(s).hostname\<close> (\<open>None\<close> when the constructor throws) and \<open>verify_detached\<close> is
  \<open>verify\<close> of \<open>crypto.cjs\<close> on the signature, the message and the public key (false when
  libsodium throws).
\<close>

record announcement =
  a_url :: string
  a_pk :: string
  a_signPk :: string
  a_ts :: int
  a_sig :: string

definition ANNOUNCE_MAX_AGE_MS :: int where "ANNOUNCE_MAX_AGE_MS = 600000"
definition ANNOUNCE_MAX_FUTURE_MS :: int where "ANNOUNCE_MAX_FUTURE_MS = 60000"

text \<open>\<open>s.startsWith(p)\<close>, and \<open>s.replace(/^p/, r)\<close> for a literal prefix \<open>p\<close>.\<close>

definition startsWith :: "string \<Rightarrow> string \<Rightarrow> bool" where
  "startsWith s p = (take (length p) s = p)"

definition replace_prefix :: "string \<Rightarrow> string \<Rightarrow> string \<Rightarrow> string" where
  "replace_prefix p r s = (if startsWith s p then r @ drop (length p) s else s)"

text \<open>The test \<open>/^[0-9a-f]{64}$/i\<close>.\<close>

definition is_hex_char :: "char \<Rightarrow> bool" where
  "is_hex_char c = (c \<in> set ''0123456789abcdefABCDEF'')"

definition hex64 :: "string \<Rightarrow> bool" where
  "hex64 s = (length s = 64 \<and> list_all is_hex_char s)"

text \<open>The decimal text of an integer, as the template literal writes \<open>ts\<close>.\<close>

fun decimal :: "nat \<Rightarrow> string" where
  "decimal n = (if n < 10 then [char_of (48 + n)]
                else decimal (n div 10) @ [char_of (48 + n mod 10)])"

declare decimal.simps [simp del]

definition number_text :: "int \<Rightarrow> string" where
  "number_text i = (if i < 0 then CHR ''-'' # decimal (nat (- i)) else decimal (nat i))"

text \<open>
  \<open>isInternalUrl\<close>: the literal host names and the regular expressions \<open>/^10\./\<close>,
  \<open>/^172\.(1[6-9]|2\d|3[01])\./\<close>, \<open>/^192\.168\./\<close>, \<open>/^169\.254\./\<close> and \<open>/^fc00:|^fd/\<close>.
\<close>

definition private_172 :: "string \<Rightarrow> bool" where
  "private_172 host =
     (startsWith host ''172.'' \<and>
      (case drop 4 host of
         a # b # c # _ \<Rightarrow>
           ((a = CHR ''1'' \<and> b \<in> set ''6789'') \<or>
            (a = CHR ''2'' \<and> b \<in> set ''0123456789'') \<or>
            (a = CHR ''3'' \<and> b \<in> set ''01'')) \<and> c = CHR ''.''
       | _ \<Rightarrow> False))"

definition isInternalUrl :: "(string \<Rightarrow> string option) \<Rightarrow> string \<Rightarrow> bool" where
  "isInternalUrl url_hostname url =
     (case url_hostname (replace_prefix ''ws:'' ''http:'' (replace_prefix ''wss:'' ''https:'' url)) of
        None \<Rightarrow> True
      | Some host \<Rightarrow>
          if host = ''localhost'' \<or> host = ''127.0.0.1'' \<or> host = ''::1'' \<or> host = ''0.0.0.0''
          then True
          else if startsWith host ''10.'' then True
          else if private_172 host then True
          else if startsWith host ''192.168.'' then True
          else if startsWith host ''169.254.'' then True
          else if startsWith host ''fc00:'' \<or> startsWith host ''fd'' then True
          else False)"

definition verifyAnnouncement ::
  "(string \<Rightarrow> string option) \<Rightarrow> (buffer \<Rightarrow> string \<Rightarrow> buffer \<Rightarrow> bool) \<Rightarrow> int \<Rightarrow> announcement \<Rightarrow> bool" where
  "verifyAnnouncement url_hostname verify_detached now a =
     (if a_url a = [] \<or> a_pk a = [] \<or> a_signPk a = [] \<or> a_ts a = 0 \<or> a_sig a = [] then False
      else if \<not> startsWith (a_url a) ''wss://'' \<and> \<not> startsWith (a_url a) ''ws://'' then False
      else if length (a_url a) > 256 then False
      else if \<not> hex64 (a_pk a) then False
      else if \<not> hex64 (a_signPk a) then False
      else if a_ts a < now - ANNOUNCE_MAX_AGE_MS then False
      else if a_ts a > now + ANNOUNCE_MAX_FUTURE_MS then False
      else if isInternalUrl url_hostname (a_url a) then False
      else verify_detached (from_hex (a_sig a))
             (a_url a @ ''|'' @ a_pk a @ ''|'' @ number_text (a_ts a))
             (from_hex (a_signPk a)))"

text \<open>
  Stand-ins for the two platform functions: the host of a URL \<open>scheme://host:port/path\<close> (the
  characters after \<open>://\<close> up to the first colon or slash), and a signature check that accepts
  the 64-byte signature of all \<open>0x5A\<close>.
\<close>

definition ex_hostname :: "string \<Rightarrow> string option" where
  "ex_hostname s =
     (if startsWith s ''http://'' then Some (takeWhile (\<lambda>c. c \<noteq> CHR '':'' \<and> c \<noteq> CHR ''/'') (drop 7 s))
      else if startsWith s ''https://''
      then Some (takeWhile (\<lambda>c. c \<noteq> CHR '':'' \<and> c \<noteq> CHR ''/'') (drop 8 s))
      else None)"

definition ex_verify :: "buffer \<Rightarrow> string \<Rightarrow> buffer \<Rightarrow> bool" where
  "ex_verify sg msg pk = (sg = replicate 64 0x5A)"

definition ex_key :: string where
  "ex_key = concat (replicate 32 ''c4'')"

definition ex_signature :: string where
  "ex_signature = concat (replicate 64 ''5a'')"

definition ex_announcement :: "string \<Rightarrow> int \<Rightarrow> announcement" where
  "ex_announcement url ts =
     \<lparr>a_url = url, a_pk = ex_key, a_signPk = ex_key, a_ts = ts, a_sig = ex_signature\<rparr>"

section \<open>rate-limit.cjs: the sliding-window limiter\<close>

text \<open>
  One limiter, as \<open>createRateLimiter(maxRequests, windowMs)\<close> closes over it: the bucket map
  and the two parameters.  Timestamps are \<open>Date.now()\<close> values in milliseconds.
\<close>

record bucket =
  timestamps :: "int list"
  blocked :: int

record limiter =
  buckets :: "(string, bucket) js_map"
  maxRequests :: int
  windowMs :: int

definition MAX_TRACKED_IPS :: nat where "MAX_TRACKED_IPS = 50000"

definition check :: "int \<Rightarrow> limiter \<Rightarrow> string \<Rightarrow> bool \<times> limiter" where
  "check now l ip =
     (if \<not> map_has (buckets l) ip \<and> map_size (buckets l) \<ge> MAX_TRACKED_IPS then (False, l)
      else
        let (b, bs) = (case map_of (buckets l) ip of
                         Some b \<Rightarrow> (b, buckets l)
                       | None \<Rightarrow> (\<lparr>timestamps = [], blocked = 0\<rparr>,
                                   map_set ip \<lparr>timestamps = [], blocked = 0\<rparr> (buckets l)))
        in if blocked b \<noteq> 0 \<and> blocked b > now then (False, l\<lparr>buckets := bs\<rparr>)
           else
             let windowStart = now - windowMs l;
                 fresh = filter (\<lambda>t. t > windowStart) (timestamps b)
             in if int (length fresh) \<ge> maxRequests l
                then (False, l\<lparr>buckets :=
                               map_set ip \<lparr>timestamps = fresh, blocked = now + windowMs l\<rparr> bs\<rparr>)
                else (True, l\<lparr>buckets :=
                              map_set ip \<lparr>timestamps = fresh @ [now], blocked = 0\<rparr> bs\<rparr>))"

text \<open>The cleanup timer's pass over the buckets, and \<open>reset\<close>.\<close>

definition cleanup_bucket :: "int \<Rightarrow> int \<Rightarrow> string \<times> bucket \<Rightarrow> (string \<times> bucket) list" where
  "cleanup_bucket now cutoff e =
     (if blocked (snd e) \<noteq> 0 \<and> blocked (snd e) > now then [e]
      else let fresh = filter (\<lambda>t. t > cutoff) (timestamps (snd e))
           in if length fresh = 0 then [] else [(fst e, (snd e)\<lparr>timestamps := fresh\<rparr>)])"

definition cleanup :: "int \<Rightarrow> limiter \<Rightarrow> limiter" where
  "cleanup now l =
     l\<lparr>buckets := concat (map (cleanup_bucket now (now - windowMs l * 2)) (buckets l))\<rparr>"

definition reset :: "limiter \<Rightarrow> limiter" where
  "reset l = l\<lparr>buckets := []\<rparr>"

text \<open>A client calling \<open>check\<close> for one origin at the given times, in order.\<close>

fun checks :: "limiter \<Rightarrow> string \<Rightarrow> int list \<Rightarrow> bool list \<times> limiter" where
  "checks l ip [] = ([], l)"
| "checks l ip (t # ts) =
     (let (r, l1) = check t l ip; (rs, l2) = checks l1 ip ts in (r # rs, l2))"

definition stamps :: "limiter \<Rightarrow> string \<Rightarrow> int list" where
  "stamps l ip = (case map_of (buckets l) ip of None \<Rightarrow> [] | Some b \<Rightarrow> timestamps b)"

definition blocked_until :: "limiter \<Rightarrow> string \<Rightarrow> int" where
  "blocked_until l ip = (case map_of (buckets l) ip of None \<Rightarrow> 0 | Some b \<Rightarrow> blocked b)"

text \<open>Two limiters: a fresh one allowing 2 requests per second, and one whose map is full.\<close>

definition ex_limiter :: limiter where
  "ex_limiter = \<lparr>buckets = [], maxRequests = 2, windowMs = 1000\<rparr>"

definition ex_full :: limiter where
  "ex_full = \<lparr>buckets = map (\<lambda>n. (replicate n CHR ''a'', \<lparr>timestamps = [], blocked = 0\<rparr>)) [0..<50000],
              maxRequests = 30, windowMs = 60000\<rparr>"

section \<open>Facts about the map operations\<close>

lemma map_of_map_set: "map_of (map_set k v m) = (map_of m)(k \<mapsto> v)"
  by (simp add: map_set_def update_conv')

lemma map_of_map_delete: "map_of (map_delete k m) = (map_of m)(k := None)"
  by (simp add: map_delete_def delete_conv')

lemma circuits_modify:
  "map_of (circuits (modify_circuit cid f st)) k =
     (if k = cid then map_option f (map_of (circuits st) cid) else map_of (circuits st) k)"
  by (simp add: modify_circuit_def map_of_map_set split: option.splits)

lemma getCircuit_snd:
  "snd (getCircuit now st cid) = modify_circuit cid (\<lambda>c. c\<lparr>lastActivity := now\<rparr>) st"
  by (simp add: getCircuit_def modify_circuit_def split: option.splits)

lemma getCircuit_fst:
  "fst (getCircuit now st cid) =
     map_option (\<lambda>c. c\<lparr>lastActivity := now\<rparr>) (map_of (circuits st) cid)"
  by (simp add: getCircuit_def split: option.splits)

lemma to_hex_cookie: "to_hex ex_cookie = ''abababababababababababababababababababab''"
  by code_simp

lemma len_cookie: "length ex_cookie = 20"
  by (simp add: ex_cookie_def)

lemma ex_establish:
  "establishRendezvous 1000 \<lparr>reg = ex_registry a b, pendingRendezvous = []\<rparr> a ex_cookie
     = (Inr (), ex_waiting a b)"
  by (simp add: establishRendezvous_def len_cookie to_hex_cookie map_has_def map_size_def
      MAX_PENDING_def map_set_def ex_waiting_def)

lemma ex_join:
  "a \<noteq> b \<Longrightarrow> joinRendezvous 2000 (ex_waiting a b) b ex_cookie
     = (Inr a, \<lparr>reg = ex_paired a b, pendingRendezvous = []\<rparr>)"
  by (simp add: joinRendezvous_def to_hex_cookie ex_waiting_def ex_registry_def getCircuit_def
      modify_circuit_def map_set_def map_delete_def ex_paired_def)

section \<open>Rendezvous: a cookie is consumed exactly once\<close>

text \<open>
  Claim C1.  After \<open>establish(cid1, C)\<close> has succeeded (so \<open>C\<close> has 20 bytes), a first
  \<open>join(cid2, C)\<close> made while both circuits are registered succeeds and returns the waiting
  circuit's id \<open>cid1\<close>; afterwards the circuit stored under \<open>cid1\<close> has
  \<open>rendezvousPairId = cid2\<close> and the one under \<open>cid2\<close> has \<open>rendezvousPairId = cid1\<close>; and every
  further join with the same cookie, by any circuit at any time, fails because the cookie is
  no longer pending.
\<close>

theorem rendezvous_cookie_consumed_once:
  assumes est: "establishRendezvous t0 s cid1 C = (Inr (), s1)"
      and c1: "map_has (circuits (reg s1)) cid1"
      and c2: "map_has (circuits (reg s1)) cid2"
  shows "length C = 20 \<and>
         fst (joinRendezvous t1 s1 cid2 C) = Inr cid1 \<and>
         map_option rendezvousPairId
           (map_of (circuits (reg (snd (joinRendezvous t1 s1 cid2 C)))) cid1) = Some (Some cid2) \<and>
         map_option rendezvousPairId
           (map_of (circuits (reg (snd (joinRendezvous t1 s1 cid2 C)))) cid2) = Some (Some cid1) \<and>
         (\<forall>t2 cid3. fst (joinRendezvous t2 (snd (joinRendezvous t1 s1 cid2 C)) cid3 C)
                       = Inl Cookie_not_found_or_expired)"
proof -
  from est have len: "length C = 20"
    and s1: "s1 = s\<lparr>pendingRendezvous :=
                 map_set (to_hex C) \<lparr>p_circuitId = cid1, p_timestamp = t0\<rparr> (pendingRendezvous s)\<rparr>"
    by (auto simp: establishRendezvous_def split: if_splits)
  have pend: "map_of (pendingRendezvous s1) (to_hex C)
                = Some \<lparr>p_circuitId = cid1, p_timestamp = t0\<rparr>"
    by (simp add: s1 map_of_map_set)
  obtain a b where a: "map_of (circuits (reg s1)) cid1 = Some a"
    and b: "map_of (circuits (reg s1)) cid2 = Some b"
    using c1 c2 by (auto simp: map_has_def)
  define j where "j = joinRendezvous t1 s1 cid2 C"
  have j: "j = (Inr cid1,
      s1\<lparr>pendingRendezvous := map_delete (to_hex C) (pendingRendezvous s1),
         reg := modify_circuit cid2 (\<lambda>c. c\<lparr>rendezvousPairId := Some cid1\<rparr>)
                 (modify_circuit cid1 (\<lambda>c. c\<lparr>rendezvousPairId := Some cid2\<rparr>)
                   (modify_circuit cid2 (\<lambda>c. c\<lparr>lastActivity := t1\<rparr>)
                     (modify_circuit cid1 (\<lambda>c. c\<lparr>lastActivity := t1\<rparr>) (reg s1))))\<rparr>)"
    unfolding j_def joinRendezvous_def
    using a b
    by (simp add: pend Let_def split_beta getCircuit_fst getCircuit_snd circuits_modify)
  have p1: "map_option rendezvousPairId (map_of (circuits (reg (snd j))) cid1) = Some (Some cid2)"
    by (simp add: j circuits_modify a b)
  have p2: "map_option rendezvousPairId (map_of (circuits (reg (snd j))) cid2) = Some (Some cid1)"
    by (simp add: j circuits_modify a b)
  have again: "fst (joinRendezvous t2 (snd j) cid3 C) = Inl Cookie_not_found_or_expired"
    for t2 cid3
    by (simp add: j joinRendezvous_def map_of_map_delete)
  show ?thesis
    using len p1 p2 again by (simp add: j_def[symmetric] j)
qed

theorem rendezvous_cookie_consumed_once_witness:
  "establishRendezvous 1000 \<lparr>reg = ex_registry 5 7, pendingRendezvous = []\<rparr> 5 ex_cookie
     = (Inr (), ex_waiting 5 7) \<and>
   map_has (circuits (reg (ex_waiting 5 7))) 5 \<and>
   map_has (circuits (reg (ex_waiting 5 7))) 7 \<and>
   fst (joinRendezvous 2000 (ex_waiting 5 7) 7 ex_cookie) = Inr 5 \<and>
   map_option rendezvousPairId
     (map_of (circuits (reg (snd (joinRendezvous 2000 (ex_waiting 5 7) 7 ex_cookie)))) 5)
       = Some (Some 7) \<and>
   map_option rendezvousPairId
     (map_of (circuits (reg (snd (joinRendezvous 2000 (ex_waiting 5 7) 7 ex_cookie)))) 7)
       = Some (Some 5) \<and>
   fst (joinRendezvous 3000 (snd (joinRendezvous 2000 (ex_waiting 5 7) 7 ex_cookie)) 9 ex_cookie)
     = Inl Cookie_not_found_or_expired"
proof -
  have h1: "map_has (circuits (reg (ex_waiting 5 7))) 5"
    by (simp add: map_has_def ex_waiting_def ex_registry_def)
  have h2: "map_has (circuits (reg (ex_waiting 5 7))) 7"
    by (simp add: map_has_def ex_waiting_def ex_registry_def)
  show ?thesis
    using rendezvous_cookie_consumed_once [OF ex_establish h1 h2, of 2000] ex_establish h1 h2
    by blast
qed

section \<open>Circuit teardown\<close>

text \<open>
  In every registry built by \<open>registerCircuit\<close> the \<open>circuitId\<close> field of a circuit is the key
  it is stored under.
\<close>

lemma wf_registry_lookup:
  "wf_registry st \<Longrightarrow> map_of (circuits st) k = Some c \<Longrightarrow> circuitId c = k"
  by (auto simp: wf_registry_def dest: map_of_SomeD)

lemma destroyCircuit_absent:
  "map_of (circuits st) cid = None \<Longrightarrow> destroyCircuit st cid = Some st"
  by (subst destroyCircuit.simps) simp

lemma destroyCircuit_no_pair:
  "map_of (circuits st) cid = Some c \<Longrightarrow> rendezvousPairId c = None \<Longrightarrow>
   destroyCircuit st cid = Some (remove_circuit cid (zero_keys cid (close_outbound c st)))"
  by (subst destroyCircuit.simps) simp

lemma circuits_close_outbound [simp]: "circuits (close_outbound c st) = circuits st"
  by (simp add: close_outbound_def ws_close_def split: option.splits)

lemma circuits_zero_keys:
  "map_of (circuits (zero_keys cid st)) k =
     (if k = cid
      then map_option (\<lambda>c. c\<lparr>rx := fill0 (rx c), tx := fill0 (tx c)\<rparr>) (map_of (circuits st) cid)
      else map_of (circuits st) k)"
  by (simp add: zero_keys_def circuits_modify)

lemma circuits_remove:
  "map_of (circuits (remove_circuit cid st)) k =
     (if k = cid then None else map_of (circuits st) k)"
  by (simp add: remove_circuit_def map_of_map_delete)

text \<open>
  The cascade spelled out: with a partner registered under a nonzero id, the call clears the
  partner's \<open>rendezvousPairId\<close>, recurses once (the inner call finds no pair id and returns),
  and removes both circuits.
\<close>

lemma destroyCircuit_pair:
  assumes wf: "wf_registry st"
      and c: "map_of (circuits st) cid = Some c"
      and p: "rendezvousPairId c = Some p" "p \<noteq> 0"
      and pair: "map_of (circuits (zero_keys cid (close_outbound c st))) p = Some pair"
  shows "destroyCircuit st cid =
           Some (remove_circuit cid (remove_circuit p (zero_keys p (close_outbound pair
             (modify_circuit p (\<lambda>c. c\<lparr>rendezvousPairId := None\<rparr>)
                (zero_keys cid (close_outbound c st)))))))"
proof -
  let ?st2 = "zero_keys cid (close_outbound c st)"
  let ?st3 = "modify_circuit p (\<lambda>c. c\<lparr>rendezvousPairId := None\<rparr>) ?st2"
  have cp: "circuitId pair = p"
    using pair wf c wf_registry_lookup[of st p]
    by (auto simp: circuits_zero_keys split: if_splits)
  have l3: "map_of (circuits ?st3) p = Some (pair\<lparr>rendezvousPairId := None\<rparr>)"
    using pair by (simp add: circuits_modify)
  have inner: "destroyCircuit ?st3 p =
      Some (remove_circuit p (zero_keys p (close_outbound (pair\<lparr>rendezvousPairId := None\<rparr>) ?st3)))"
    using destroyCircuit_no_pair[OF l3] by simp
  have co: "close_outbound (pair\<lparr>rendezvousPairId := None\<rparr>) ?st3 = close_outbound pair ?st3"
    by (simp add: close_outbound_def)
  show ?thesis
    apply (subst destroyCircuit.simps)
    using c p pair inner by (simp add: cp co)
qed

lemma destroyCircuit_terminates:
  assumes wf: "wf_registry st"
  shows "\<exists>st'. destroyCircuit st cid = Some st'"
proof (cases "map_of (circuits st) cid")
  case None
  then show ?thesis by (simp add: destroyCircuit_absent)
next
  case (Some c)
  note c = this
  show ?thesis
  proof (cases "rendezvousPairId c")
    case None
    with c show ?thesis by (simp add: destroyCircuit_no_pair)
  next
    case (Some p)
    note pp = this
    show ?thesis
    proof (cases "p = 0 \<or> map_of (circuits (zero_keys cid (close_outbound c st))) p = None")
      case True
      then show ?thesis
        using c pp by (subst destroyCircuit.simps) auto
    next
      case False
      then obtain pair where
        "p \<noteq> 0" "map_of (circuits (zero_keys cid (close_outbound c st))) p = Some pair"
        by auto
      from destroyCircuit_pair[OF wf c pp this]
      show ?thesis by blast
    qed
  qed
qed

lemma destroyCircuit_pair_removed:
  assumes wf: "wf_registry st"
      and c: "map_of (circuits st) cid = Some c"
      and p: "rendezvousPairId c = Some p" "p \<noteq> 0"
      and pair: "map_has (circuits st) p"
  shows "\<exists>st'. destroyCircuit st cid = Some st' \<and>
           \<not> map_has (circuits st') cid \<and> \<not> map_has (circuits st') p"
proof -
  have "map_of (circuits (zero_keys cid (close_outbound c st))) p \<noteq> None"
    using pair c by (auto simp: map_has_def circuits_zero_keys)
  then obtain pair where "map_of (circuits (zero_keys cid (close_outbound c st))) p = Some pair"
    by blast
  from destroyCircuit_pair[OF wf c p this]
  show ?thesis
    by (auto simp: map_has_def circuits_remove)
qed

lemma wf_ex_paired: "wf_registry (ex_paired a b)"
  by (simp add: wf_registry_def ex_paired_def ex_circuit_def)

lemma destroyCircuit_nonzero_partner:
  "destroyCircuit (ex_paired 5 7) 7 =
     Some \<lparr>circuits = [], readyState = (\<lambda>_. 1), maxCircuits = 10000, sessionTtl = 300000\<rparr>"
  apply (subst destroyCircuit_pair[OF wf_ex_paired,
        where c = "(ex_circuit 7)\<lparr>lastActivity := 2000, rendezvousPairId := Some 5\<rparr>"
          and p = 5
          and pair = "(ex_circuit 5)\<lparr>lastActivity := 2000, rendezvousPairId := Some 7\<rparr>"])
  apply (simp_all add: ex_paired_def remove_circuit_def zero_keys_def close_outbound_def
      modify_circuit_def map_set_def map_delete_def ex_circuit_def fill0_def)
  done

text \<open>
  Claim C9.  The claim says that \<open>destroyCircuit(id)\<close> terminates and that afterwards both
  circuits of a rendezvous pair are gone from the registry with their keys zero-filled.  The
  call does terminate (\<open>destroyCircuit_terminates\<close>), and a partner with a nonzero id is removed
  (\<open>destroyCircuit_pair_removed\<close>).  But the guard \<open>if (circuit.rendezvousPairId)\<close> is false
  for the circuit id 0: circuits 0 and 7, paired by \<open>establish(0, C)\<close> and \<open>join(7, C)\<close>
  (\<open>ex_establish\<close>, \<open>ex_join\<close>), are in the registry; \<open>destroyCircuit(7)\<close> returns a registry
  that still holds circuit 0, its keys \<open>[1, 2]\<close> and \<open>[3, 4]\<close> not zero-filled and its
  \<open>rendezvousPairId\<close> still 7.
\<close>

theorem destroyCircuit_zero_partner:
  "destroyCircuit (ex_paired 0 7) 7 =
     Some \<lparr>circuits = [(0, (ex_circuit 0)\<lparr>lastActivity := 2000, rendezvousPairId := Some 7\<rparr>)],
           readyState = (\<lambda>_. 1), maxCircuits = 10000, sessionTtl = 300000\<rparr>"
  apply (subst destroyCircuit.simps)
  apply (simp add: ex_paired_def remove_circuit_def zero_keys_def close_outbound_def
      modify_circuit_def map_set_def map_delete_def ex_circuit_def fill0_def)
  done

section \<open>The rate limiter\<close>

lemma check_config [simp]:
  "maxRequests (snd (check now l ip)) = maxRequests l"
  "windowMs (snd (check now l ip)) = windowMs l"
  by (auto simp: check_def Let_def split: option.splits)

text \<open>An allowed check: the bucket afterwards.\<close>

lemma check_allowed:
  assumes "fst (check now l ip) = True"
  shows "map_of (buckets (snd (check now l ip))) ip =
           Some \<lparr>timestamps = filter (\<lambda>t. t > now - windowMs l) (stamps l ip) @ [now], blocked = 0\<rparr>"
    and "int (length (filter (\<lambda>t. t > now - windowMs l) (stamps l ip))) < maxRequests l"
  using assms
  by (auto simp: check_def Let_def stamps_def map_of_map_set split: option.splits if_splits)

lemma check_rejected_full:
  assumes "map_of (buckets l) ip = Some b" "\<not> (blocked b \<noteq> 0 \<and> blocked b > now)"
    and "int (length (filter (\<lambda>t. t > now - windowMs l) (timestamps b))) \<ge> maxRequests l"
  shows "check now l ip =
           (False, l\<lparr>buckets := map_set ip
              \<lparr>timestamps = filter (\<lambda>t. t > now - windowMs l) (timestamps b),
               blocked = now + windowMs l\<rparr> (buckets l)\<rparr>)"
  using assms by (auto simp: check_def Let_def map_has_def)

lemma check_allowed_iff:
  assumes "map_of (buckets l) ip = Some b" "\<not> (blocked b \<noteq> 0 \<and> blocked b > now)"
  shows "fst (check now l ip) = (int (length (filter (\<lambda>t. t > now - windowMs l) (timestamps b))) < maxRequests l)"
  using assms by (auto simp: check_def Let_def map_has_def)

lemma filter_window_mono:
  fixes t T W :: int
  assumes "t \<le> T"
  shows "filter (\<lambda>x. t - W < x \<and> T - W < x) xs = filter (\<lambda>x. T - W < x) xs"
  using assms by (induction xs) auto

lemma checks_Cons:
  "checks l ip (t # ts) =
     (fst (check t l ip) # fst (checks (snd (check t l ip)) ip ts),
      snd (checks (snd (check t l ip)) ip ts))"
  by (simp add: split_beta Let_def)

lemma stamps_allowed:
  "fst (check now l ip) \<Longrightarrow>
   stamps (snd (check now l ip)) ip = filter (\<lambda>t. t > now - windowMs l) (stamps l ip) @ [now]"
  using check_allowed(1)[of now l ip] by (simp add: stamps_def)

lemma blocked_allowed:
  "fst (check now l ip) \<Longrightarrow>
   map_has (buckets (snd (check now l ip))) ip \<and> blocked_until (snd (check now l ip)) ip = 0"
  using check_allowed(1)[of now l ip] by (simp add: blocked_until_def map_has_def)

lemma checks_config [simp]:
  "windowMs (snd (checks l ip ts)) = windowMs l"
  "maxRequests (snd (checks l ip ts)) = maxRequests l"
  by (induction ts arbitrary: l) (simp_all add: checks_Cons del: checks.simps(2))

lemma checks_count:
  assumes "fst (checks l ip ts) = replicate (length ts) True"
      and "\<forall>t \<in> set ts. T - windowMs l < t \<and> t \<le> T"
  shows "length (filter (\<lambda>x. x > T - windowMs l) (stamps (snd (checks l ip ts)) ip))
           = length (filter (\<lambda>x. x > T - windowMs l) (stamps l ip)) + length ts"
  using assms
proof (induction ts arbitrary: l)
  case Nil
  show ?case by simp
next
  case (Cons t ts)
  let ?l1 = "snd (check t l ip)"
  from Cons.prems(1) have al: "fst (check t l ip)"
    and rest: "fst (checks ?l1 ip ts) = replicate (length ts) True"
    by (simp_all add: checks_Cons del: checks.simps(2))
  have tT: "T - windowMs l < t" "t \<le> T" using Cons.prems(2) by auto
  have "length (filter (\<lambda>x. x > T - windowMs ?l1) (stamps (snd (checks ?l1 ip ts)) ip))
           = length (filter (\<lambda>x. x > T - windowMs ?l1) (stamps ?l1 ip)) + length ts"
    using Cons.IH[OF rest] Cons.prems(2) by simp
  then show ?case
    using tT by (simp add: checks_Cons stamps_allowed[OF al] filter_window_mono del: checks.simps(2))
qed

lemma checks_past:
  assumes "fst (checks l ip ts) = replicate (length ts) True"
      and "\<forall>t \<in> set ts. t \<le> T" "\<forall>x \<in> set (stamps l ip). x \<le> T"
  shows "\<forall>x \<in> set (stamps (snd (checks l ip ts)) ip). x \<le> T"
  using assms
proof (induction ts arbitrary: l)
  case Nil
  then show ?case by simp
next
  case (Cons t ts)
  let ?l1 = "snd (check t l ip)"
  from Cons.prems(1) have al: "fst (check t l ip)"
    and rest: "fst (checks ?l1 ip ts) = replicate (length ts) True"
    by (simp_all add: checks_Cons del: checks.simps(2))
  have "\<forall>x \<in> set (stamps ?l1 ip). x \<le> T"
    using Cons.prems(2,3) by (auto simp: stamps_allowed[OF al])
  from Cons.IH[OF rest _ this] Cons.prems(2)
  show ?case by (simp add: checks_Cons del: checks.simps(2))
qed

lemma checks_unblocked:
  assumes "fst (checks l ip ts) = replicate (length ts) True" "ts \<noteq> []"
  shows "map_has (buckets (snd (checks l ip ts))) ip \<and> blocked_until (snd (checks l ip ts)) ip = 0"
  using assms
proof (induction ts arbitrary: l)
  case Nil
  then show ?case by simp
next
  case (Cons t ts)
  let ?l1 = "snd (check t l ip)"
  from Cons.prems(1) have al: "fst (check t l ip)"
    and rest: "fst (checks ?l1 ip ts) = replicate (length ts) True"
    by (simp_all add: checks_Cons del: checks.simps(2))
  show ?case
  proof (cases "ts = []")
    case True
    then show ?thesis using blocked_allowed[OF al] by (simp add: checks_Cons del: checks.simps(2))
  next
    case False
    from Cons.IH[OF rest False] show ?thesis by (simp add: checks_Cons del: checks.simps(2))
  qed
qed


lemma check_step:
  assumes tracked: "map_has (buckets l) ip \<or> map_size (buckets l) < MAX_TRACKED_IPS"
      and unblocked: "\<not> (blocked_until l ip \<noteq> 0 \<and> now < blocked_until l ip)"
  shows "fst (check now l ip)
           = (int (length (filter (\<lambda>t. now - windowMs l < t) (stamps l ip))) < maxRequests l)"
    and "stamps (snd (check now l ip)) ip =
           (if fst (check now l ip)
            then filter (\<lambda>t. now - windowMs l < t) (stamps l ip) @ [now]
            else filter (\<lambda>t. now - windowMs l < t) (stamps l ip))"
    and "blocked_until (snd (check now l ip)) ip =
           (if fst (check now l ip) then 0 else now + windowMs l)"
  using assms
  by (auto simp: check_def Let_def stamps_def blocked_until_def map_has_def map_of_map_set
      split: option.splits)

lemma map_set_length:
  "length (map_set k v m) = (if map_has m k then length m else Suc (length m))"
  unfolding map_set_def map_has_def by (induction m) auto

lemma cleanup_shrinks: "map_size (buckets (cleanup now l)) \<le> map_size (buckets l)"
proof -
  have "length (concat (map (cleanup_bucket now c) xs)) \<le> length xs" for c xs
    by (induction xs) (auto simp: cleanup_bucket_def Let_def)
  then show ?thesis by (simp add: cleanup_def map_size_def)
qed

lemma ex_limiter_run:
  "checks ex_limiter ''203.0.113.9'' [0, 10] =
     ([True, True],
      ex_limiter\<lparr>buckets := [(''203.0.113.9'', \<lparr>timestamps = [0, 10], blocked = 0\<rparr>)]\<rparr>)"
  by (simp add: check_def ex_limiter_def map_has_def map_size_def MAX_TRACKED_IPS_def
      map_set_def Let_def)

lemma ex_full_size: "map_size (buckets ex_full) = 50000"
  by (simp add: ex_full_def map_size_def)

lemma ex_full_unseen: "\<not> map_has (buckets ex_full) ''b''"
proof -
  have "''b'' \<noteq> replicate n CHR ''a''" for n
  proof
    assume "''b'' = replicate n CHR ''a''"
    then have "set ''b'' = set (replicate n CHR ''a'')" by simp
    then show False by (cases n) auto
  qed
  then show ?thesis
    by (auto simp: map_has_def ex_full_def map_of_eq_None_iff image_iff)
qed

text \<open>
  Claim C3.  For one origin, a check that is not refused outright (the origin is tracked or
  the map has room, and no block is pending) drops the timestamps that are not newer than
  \<open>now - windowMs\<close>, is allowed exactly when fewer than \<open>maxRequests\<close> remain, appends \<open>now\<close>
  when it is allowed and sets the block-until time to \<open>now + windowMs\<close> when it is rejected.
  Concretely, with a maximum \<open>N \<ge> 1\<close>: after \<open>N\<close> allowed checks of one origin at times that
  all lie in the window ending at \<open>T\<close>, the next check at \<open>T\<close> is rejected and blocks the
  origin until \<open>T + windowMs\<close>; a check at any time \<open>t'\<close> from \<open>T + windowMs\<close> on is allowed
  again, and the bucket then holds only \<open>t'\<close>.  (The clock does not run backwards: the
  timestamps already in the bucket are not later than \<open>T\<close>.)
\<close>

theorem rate_limit_window:
  assumes tracked: "map_has (buckets l0) ip \<or> map_size (buckets l0) < MAX_TRACKED_IPS"
      and unblocked: "\<not> (blocked_until l0 ip \<noteq> 0 \<and> now < blocked_until l0 ip)"
      and n: "1 \<le> maxRequests l" "int (length ts) = maxRequests l"
      and allowed: "fst (checks l ip ts) = replicate (length ts) True"
      and window: "\<forall>t \<in> set ts. T - windowMs l < t \<and> t \<le> T"
      and past: "\<forall>x \<in> set (stamps l ip). x \<le> T"
      and later: "T + windowMs l \<le> t'"
  shows "fst (check now l0 ip)
           = (int (length (filter (\<lambda>t. now - windowMs l0 < t) (stamps l0 ip))) < maxRequests l0) \<and>
         stamps (snd (check now l0 ip)) ip =
           (if fst (check now l0 ip)
            then filter (\<lambda>t. now - windowMs l0 < t) (stamps l0 ip) @ [now]
            else filter (\<lambda>t. now - windowMs l0 < t) (stamps l0 ip)) \<and>
         blocked_until (snd (check now l0 ip)) ip =
           (if fst (check now l0 ip) then 0 else now + windowMs l0) \<and>
         fst (check T (snd (checks l ip ts)) ip) = False \<and>
         blocked_until (snd (check T (snd (checks l ip ts)) ip)) ip = T + windowMs l \<and>
         fst (check t' (snd (check T (snd (checks l ip ts)) ip)) ip) = True \<and>
         stamps (snd (check t' (snd (check T (snd (checks l ip ts)) ip)) ip)) ip = [t']"
proof -
  let ?l1 = "snd (checks l ip ts)"
  let ?W = "windowMs l"
  have ne: "ts \<noteq> []" using n by auto
  from checks_unblocked[OF allowed ne] obtain b where
    b: "map_of (buckets ?l1) ip = Some b" and bb: "blocked b = 0"
    by (auto simp: map_has_def blocked_until_def)
  have sb: "stamps ?l1 ip = timestamps b" using b by (simp add: stamps_def)
  have cnt: "int (length (filter (\<lambda>x. x > T - ?W) (timestamps b))) \<ge> maxRequests l"
    using checks_count[OF allowed window] n by (simp add: sb)
  have pastb: "\<forall>x \<in> set (timestamps b). x \<le> T"
    using checks_past[OF allowed _ past] window by (simp add: sb)
  let ?b2 = "\<lparr>timestamps = filter (\<lambda>t. t > T - ?W) (timestamps b), blocked = T + ?W\<rparr>"
  let ?l2 = "?l1\<lparr>buckets := map_set ip ?b2 (buckets ?l1)\<rparr>"
  have rej: "check T ?l1 ip = (False, ?l2)"
    using check_rejected_full[OF b, of T] bb cnt by simp
  have b2: "map_of (buckets ?l2) ip = Some ?b2" by (simp add: map_of_map_set)
  have empty: "filter (\<lambda>x. x > t' - ?W) (timestamps ?b2) = []"
    using pastb later by (auto simp: filter_empty_conv)
  have ok: "fst (check t' ?l2 ip)"
    using check_allowed_iff[OF b2, of t'] later n empty by simp
  have st: "stamps (snd (check t' ?l2 ip)) ip = [t']"
    using stamps_allowed[OF ok] b2 empty by (simp add: stamps_def)
  have scenario: "fst (check T ?l1 ip) = False \<and>
         blocked_until (snd (check T ?l1 ip)) ip = T + ?W \<and>
         fst (check t' (snd (check T ?l1 ip)) ip) = True \<and>
         stamps (snd (check t' (snd (check T ?l1 ip)) ip)) ip = [t']"
    using ok st by (simp add: rej blocked_until_def map_of_map_set)
  show ?thesis
    using check_step[OF tracked unblocked] scenario by simp
qed

theorem rate_limit_window_witness:
  "(map_has (buckets ex_limiter) ''203.0.113.9'' \<or> map_size (buckets ex_limiter) < MAX_TRACKED_IPS) \<and>
   \<not> (blocked_until ex_limiter ''203.0.113.9'' \<noteq> 0 \<and> 0 < blocked_until ex_limiter ''203.0.113.9'') \<and>
   1 \<le> maxRequests ex_limiter \<and> int (length [0, 10 :: int]) = maxRequests ex_limiter \<and>
   fst (checks ex_limiter ''203.0.113.9'' [0, 10]) = replicate (length [0, 10 :: int]) True \<and>
   list_all (\<lambda>t. 20 - windowMs ex_limiter < t \<and> t \<le> 20) [0, 10] \<and>
   list_all (\<lambda>x. x \<le> 20) (stamps ex_limiter ''203.0.113.9'') \<and>
   20 + windowMs ex_limiter \<le> 1020 \<and>
   fst (check 0 ex_limiter ''203.0.113.9'') = True \<and>
   stamps (snd (check 0 ex_limiter ''203.0.113.9'')) ''203.0.113.9'' = [0] \<and>
   fst (check 20 (snd (checks ex_limiter ''203.0.113.9'' [0, 10])) ''203.0.113.9'') = False \<and>
   blocked_until (snd (check 20 (snd (checks ex_limiter ''203.0.113.9'' [0, 10])) ''203.0.113.9''))
     ''203.0.113.9'' = 1020 \<and>
   fst (check 1020 (snd (check 20 (snd (checks ex_limiter ''203.0.113.9'' [0, 10]))
     ''203.0.113.9'')) ''203.0.113.9'') = True"
proof -
  have h1: "map_has (buckets ex_limiter) ''203.0.113.9'' \<or> map_size (buckets ex_limiter) < MAX_TRACKED_IPS"
    by (simp add: ex_limiter_def map_size_def MAX_TRACKED_IPS_def)
  have h2: "\<not> (blocked_until ex_limiter ''203.0.113.9'' \<noteq> 0
               \<and> 0 < blocked_until ex_limiter ''203.0.113.9'')"
    by (simp add: ex_limiter_def blocked_until_def)
  have h3: "1 \<le> maxRequests ex_limiter" "int (length [0, 10 :: int]) = maxRequests ex_limiter"
    by (simp_all add: ex_limiter_def)
  have h4: "fst (checks ex_limiter ''203.0.113.9'' [0, 10]) = replicate (length [0, 10 :: int]) True"
    by (simp add: ex_limiter_run del: checks.simps)
  have h5: "\<forall>t \<in> set [0, 10]. 20 - windowMs ex_limiter < t \<and> t \<le> 20"
    by (simp add: ex_limiter_def)
  have h6: "\<forall>x \<in> set (stamps ex_limiter ''203.0.113.9''). x \<le> 20"
    by (simp add: ex_limiter_def stamps_def)
  have h7: "20 + windowMs ex_limiter \<le> 1020"
    by (simp add: ex_limiter_def)
  have w: "windowMs ex_limiter = 1000" "maxRequests ex_limiter = 2"
    "stamps ex_limiter ''203.0.113.9'' = []"
    by (simp_all add: ex_limiter_def stamps_def)
  from rate_limit_window [OF h1 h2 h3 h4 h5 h6 h7]
  show ?thesis
    using h1 h2 h3 h4 h5 h6 h7 by (simp add: w del: checks.simps)
qed

text \<open>
  Claim C10.  A call to \<open>check\<close> never takes the bucket map above 50,000 entries, and when the
  map already holds 50,000 origins a check from an origin without a bucket is rejected and
  leaves the limiter as it was (no bucket is created).
\<close>

theorem rate_limit_bounded:
  "(map_size (buckets l) \<le> MAX_TRACKED_IPS \<longrightarrow>
      map_size (buckets (snd (check now l ip))) \<le> MAX_TRACKED_IPS) \<and>
   (map_size (buckets l) \<ge> MAX_TRACKED_IPS \<and> \<not> map_has (buckets l) ip \<longrightarrow>
      check now l ip = (False, l))"
  by (auto simp: check_def Let_def map_size_def map_set_length map_has_def map_of_map_set
      split: option.splits)

theorem rate_limit_bounded_witness:
  "map_size (buckets ex_full) \<le> MAX_TRACKED_IPS \<and>
   map_size (buckets (snd (check 5 ex_full ''b''))) \<le> MAX_TRACKED_IPS \<and>
   map_size (buckets ex_full) \<ge> MAX_TRACKED_IPS \<and> \<not> map_has (buckets ex_full) ''b'' \<and>
   check 5 ex_full ''b'' = (False, ex_full)"
  using rate_limit_bounded [of ex_full 5 "''b''"] ex_full_size ex_full_unseen
  by (simp add: MAX_TRACKED_IPS_def)

section \<open>The room tracker: REGISTER and HEARTBEAT\<close>

lemma ex_register_facts:
  "readUInt16BE ex_register_msg 34 = 3" "length ex_register_msg = 40"
  "to_hex (subarray ex_register_msg 2 34) = ex_room_id"
  by code_simp+

lemma ex_room_id_neq: "ex_room_id \<noteq> ''00''"
  by code_simp

lemma ex_heartbeat_facts:
  "length ex_heartbeat_msg = 33"
  "to_hex (subarray ex_heartbeat_msg 1 33) = ex_room_id"
  "to_hex (subarray ex_heartbeat_msg (Suc 0) 33) = ex_room_id"
  by code_simp+

text \<open>
  Claim C4.  For a well-formed REGISTER message (the buffer holds the 36-byte prefix and the
  relay it announces): when the room id is already in the room table, the response is
  success, the room keeps its \<open>createdAt\<close> and its \<open>expiresAt\<close> becomes \<open>now + roomTtlMs\<close>;
  when the room id is new and the room table holds \<open>maxRooms\<close> rooms or more, the response is
  the failure response and the tracker state is unchanged.
\<close>

theorem register_keeps_createdAt:
  assumes wellformed: "36 + readUInt16BE data 34 \<le> length data"
      and present: "map_of (rooms tr) (to_hex (subarray data 2 34)) = Some old"
      and absent: "map_of (rooms tr') (to_hex (subarray data 2 34)) = None"
      and full: "maxRooms tr' \<le> map_size (rooms tr')"
  shows "fst (handleRegister toString_utf8 now tr data ws cid) = Some [0x42, 0x01] \<and>
         map_option createdAt (map_of (rooms (snd (handleRegister toString_utf8 now tr data ws cid)))
            (to_hex (subarray data 2 34))) = Some (createdAt old) \<and>
         map_option expiresAt (map_of (rooms (snd (handleRegister toString_utf8 now tr data ws cid)))
            (to_hex (subarray data 2 34))) = Some (now + roomTtlMs tr) \<and>
         handleRegister toString_utf8 now tr' data ws cid = (Some [0x42, 0x00], tr')"
  using assms
  by (simp add: handleRegister_def Let_def map_has_def map_of_map_set MSG_RESPONSE_def)

theorem register_keeps_createdAt_witness:
  "36 + readUInt16BE ex_register_msg 34 \<le> length ex_register_msg \<and>
   map_of (rooms ex_tracker) (to_hex (subarray ex_register_msg 2 34)) = Some ex_room \<and>
   map_of (rooms ex_tracker_full) (to_hex (subarray ex_register_msg 2 34)) = None \<and>
   maxRooms ex_tracker_full \<le> map_size (rooms ex_tracker_full) \<and>
   fst (handleRegister ex_toString_utf8 9000 ex_tracker ex_register_msg None None) = Some [0x42, 0x01] \<and>
   map_option createdAt (map_of (rooms (snd (handleRegister ex_toString_utf8 9000 ex_tracker ex_register_msg None None)))
      ex_room_id) = Some 500 \<and>
   map_option expiresAt (map_of (rooms (snd (handleRegister ex_toString_utf8 9000 ex_tracker ex_register_msg None None)))
      ex_room_id) = Some 129000 \<and>
   handleRegister ex_toString_utf8 9000 ex_tracker_full ex_register_msg None None = (Some [0x42, 0x00], ex_tracker_full)"
proof -
  have h1: "36 + readUInt16BE ex_register_msg 34 \<le> length ex_register_msg"
    by (simp add: ex_register_facts)
  have h2: "map_of (rooms ex_tracker) (to_hex (subarray ex_register_msg 2 34)) = Some ex_room"
    by (simp add: ex_register_facts ex_tracker_def)
  have h3: "map_of (rooms ex_tracker_full) (to_hex (subarray ex_register_msg 2 34)) = None"
    using ex_room_id_neq by (auto simp add: ex_register_facts ex_tracker_full_def)
  have h4: "maxRooms ex_tracker_full \<le> map_size (rooms ex_tracker_full)"
    by (simp add: ex_tracker_full_def map_size_def)
  have ttl: "roomTtlMs ex_tracker = 120000" "createdAt ex_room = 500"
    by (simp_all add: ex_tracker_def ex_room_def)
  from register_keeps_createdAt [OF h1 h2 h3 h4, of ex_toString_utf8 9000 None None]
  show ?thesis
    using h1 h2 h3 h4 by (simp add: ex_register_facts ttl)
qed

text \<open>
  Claim C7.  For a HEARTBEAT message of at least 33 bytes: when its room id is not in the
  room table the response is the failure response and the tracker state is unchanged (no
  room is created); when the room is present its \<open>expiresAt\<close> becomes \<open>now + roomTtlMs\<close> and
  the response is success.
\<close>

theorem heartbeat_unknown_room:
  assumes wellformed: "33 \<le> length data"
      and absent: "map_of (rooms tr) (to_hex (subarray data 1 33)) = None"
      and present: "map_of (rooms tr') (to_hex (subarray data 1 33)) = Some r"
  shows "handleHeartbeat now tr data = (Some [0x42, 0x00], tr) \<and>
         fst (handleHeartbeat now tr' data) = Some [0x42, 0x01] \<and>
         rooms (snd (handleHeartbeat now tr' data)) =
           map_set (to_hex (subarray data 1 33)) (r\<lparr>expiresAt := now + roomTtlMs tr'\<rparr>) (rooms tr') \<and>
         map_option expiresAt (map_of (rooms (snd (handleHeartbeat now tr' data)))
            (to_hex (subarray data 1 33))) = Some (now + roomTtlMs tr')"
  using assms
  by (simp add: handleHeartbeat_def Let_def map_of_map_set MSG_RESPONSE_def)

theorem heartbeat_unknown_room_witness:
  "33 \<le> length ex_heartbeat_msg \<and>
   map_of (rooms ex_tracker_full) (to_hex (subarray ex_heartbeat_msg 1 33)) = None \<and>
   map_of (rooms ex_tracker) (to_hex (subarray ex_heartbeat_msg 1 33)) = Some ex_room \<and>
   handleHeartbeat 9000 ex_tracker_full ex_heartbeat_msg = (Some [0x42, 0x00], ex_tracker_full) \<and>
   fst (handleHeartbeat 9000 ex_tracker ex_heartbeat_msg) = Some [0x42, 0x01] \<and>
   map_option expiresAt (map_of (rooms (snd (handleHeartbeat 9000 ex_tracker ex_heartbeat_msg)))
      ex_room_id) = Some 129000"
proof -
  have h1: "33 \<le> length ex_heartbeat_msg"
    by (simp add: ex_heartbeat_facts)
  have h2: "map_of (rooms ex_tracker_full) (to_hex (subarray ex_heartbeat_msg 1 33)) = None"
    using ex_room_id_neq by (auto simp add: ex_heartbeat_facts ex_tracker_full_def)
  have h3: "map_of (rooms ex_tracker) (to_hex (subarray ex_heartbeat_msg 1 33)) = Some ex_room"
    by (simp add: ex_heartbeat_facts ex_tracker_def)
  have ttl: "roomTtlMs ex_tracker = 120000"
    by (simp add: ex_tracker_def)
  from heartbeat_unknown_room [OF h1 h2 h3, of 9000]
  show ?thesis
    using h1 h2 h3 by (simp add: ex_heartbeat_facts ttl map_of_map_set)
qed


section \<open>The room tracker: QUERY pagination\<close>

lemma unat_byte: "unat (of_nat x :: byte) = x mod 256"
  by (simp add: unat_of_nat)

lemma u16_digits:
  fixes n :: nat
  assumes "n < 65536"
  shows "n div 256 mod 256 * 256 + n mod 256 = n"
proof -
  have "n div 256 < 256" using assms by (simp add: less_mult_imp_div_less)
  then have "n div 256 mod 256 = n div 256" by simp
  then show ?thesis by simp
qed

lemma u32_digits:
  fixes c :: nat
  assumes "c < 4294967296"
  shows "c div 16777216 mod 256 * 16777216 + c div 65536 mod 256 * 65536
           + c div 256 mod 256 * 256 + c mod 256 = c"
proof -
  have "c div 16777216 < 256" using assms by (simp add: less_mult_imp_div_less)
  then have a: "c div 16777216 mod 256 = c div 16777216" by simp
  have e1: "c div 16777216 = c div 65536 div 256" by (simp add: div_mult2_eq[symmetric])
  have e2: "c div 65536 = c div 256 div 256" by (simp add: div_mult2_eq[symmetric])
  have b: "c div 65536 = c div 16777216 * 256 + c div 65536 mod 256"
    unfolding e1 by (rule div_mult_mod_eq[symmetric])
  have c': "c div 256 = c div 65536 * 256 + c div 256 mod 256"
    unfolding e2 by (rule div_mult_mod_eq[symmetric])
  have d: "c = c div 256 * 256 + c mod 256" by (rule div_mult_mod_eq[symmetric])
  show ?thesis using a b c' d by linarith
qed

lemma read_query_message:
  assumes "c < 4294967296" "n < 65536"
  shows "length (query_message c n) = 7"
    and "readUInt32BE (query_message c n) 1 = c"
    and "readUInt16BE (query_message c n) 5 = n"
proof -
  have q: "query_message c n = [0x41, of_nat (c div 16777216), of_nat (c div 65536),
      of_nat (c div 256), of_nat c, of_nat (n div 256), of_nat n]"
    by (simp add: query_message_def writeUInt32BE_bytes_def writeUInt16BE_bytes_def)
  show "length (query_message c n) = 7" by (simp add: q)
  have "readUInt32BE (query_message c n) 1 =
          c div 16777216 mod 256 * 16777216 + c div 65536 mod 256 * 65536
           + c div 256 mod 256 * 256 + c mod 256"
    unfolding q readUInt32BE_def by (simp add: unat_byte)
  then show "readUInt32BE (query_message c n) 1 = c"
    by (simp only: u32_digits[OF assms(1)])
  have "readUInt16BE (query_message c n) 5 = n div 256 mod 256 * 256 + n mod 256"
    unfolding q readUInt16BE_def by (simp add: unat_byte)
  then show "readUInt16BE (query_message c n) 5 = n"
    by (simp only: u16_digits[OF assms(2)])
qed

lemma encode_entries_fits:
  "\<forall>p \<in> set xs. fits_wire p \<Longrightarrow> encode_entries xs = Inr (map entry_of xs)"
  by (induction xs) (simp_all add: encode_entry_def writeUInt16BE_def fits_wire_def entry_of_def)

lemma handleQuery_page:
  assumes c: "c < 4294967296" and n: "n \<le> 100"
      and fits: "\<forall>p \<in> set (publicRooms now tr). fits_wire p"
      and size: "length (publicRooms now tr) < 4294967296"
  shows "handleQuery now tr (query_message c n) =
           Inr (Some \<lparr>nextCursor = min c (length (publicRooms now tr))
                          + length (take n (drop (min c (length (publicRooms now tr))) (publicRooms now tr))),
                       roomCount = length (take n (drop (min c (length (publicRooms now tr))) (publicRooms now tr))),
                       entries = map entry_of
                          (take n (drop (min c (length (publicRooms now tr))) (publicRooms now tr)))\<rparr>)"
proof -
  define P where "P = publicRooms now tr"
  define start where "start = min c (length P)"
  define slice where "slice = take n (drop start P)"
  have n': "n < 65536" using n by simp
  have sl: "\<forall>p \<in> set slice. fits_wire p"
    using fits unfolding slice_def P_def by (meson in_set_dropD in_set_takeD)
  have enc: "encode_entries slice = Inr (map entry_of slice)"
    by (rule encode_entries_fits[OF sl])
  have len: "length slice \<le> 100" using n by (simp add: slice_def)
  have nc: "start + length slice \<le> length P" by (simp add: slice_def start_def)
  have w32: "writeUInt32BE (start + length slice) = Inr (start + length slice)"
    using nc size by (simp add: writeUInt32BE_def P_def)
  have w16: "writeUInt16BE (length slice) = Inr (length slice)"
    using len by (simp add: writeUInt16BE_def)
  have r: "length (query_message c n) = 7" "readUInt32BE (query_message c n) (Suc 0) = c"
    "readUInt16BE (query_message c n) 5 = n"
    using read_query_message[OF c n'] by simp_all
  show ?thesis
    unfolding handleQuery_def Let_def
    using n enc w32 w16 unfolding slice_def start_def P_def
    by (simp add: r)
qed

lemma query_all_from:
  assumes n: "1 \<le> n" "n \<le> 100"
      and fits: "\<forall>p \<in> set (publicRooms now tr). fits_wire p"
      and size: "length (publicRooms now tr) < 4294967296"
      and k: "k \<le> length (publicRooms now tr)"
  shows "\<exists>pages. query_all now tr n k = Some pages \<and>
           concat pages = map entry_of (drop k (publicRooms now tr)) \<and>
           pages \<noteq> [] \<and> length (last pages) < n \<and>
           (\<forall>p \<in> set (butlast pages). length p = n)"
  using k
proof (induction "length (publicRooms now tr) - k" arbitrary: k rule: less_induct)
  case less
  define P where "P = publicRooms now tr"
  define slice where "slice = take n (drop k P)"
  have kP: "k \<le> length P" using less.prems by (simp add: P_def)
  have kc: "k < 4294967296" using less.prems size by simp
  have mk: "min k (length (publicRooms now tr)) = k" using less.prems by simp
  have page: "handleQuery now tr (query_message k n) =
           Inr (Some \<lparr>nextCursor = k + length slice, roomCount = length slice,
                       entries = map entry_of slice\<rparr>)"
    using handleQuery_page[OF kc n(2) fits size] by (simp add: mk slice_def P_def)
  show ?case
  proof (cases "length slice < n")
    case True
    then have all: "slice = drop k P" by (simp add: slice_def)
    have "query_all now tr n k = Some [map entry_of slice]"
      by (subst query_all.simps) (simp add: page True)
    then show ?thesis using True all by (simp add: P_def)
  next
    case False
    then have full: "length slice = n" by (simp add: slice_def)
    then have kn: "k + n \<le> length (publicRooms now tr)"
      using less.prems n by (auto simp: slice_def P_def)
    have dec: "length (publicRooms now tr) - (k + n) < length (publicRooms now tr) - k"
      using kn n by simp
    from less.hyps[OF dec kn] obtain pages where
      ps: "query_all now tr n (k + n) = Some pages"
          "concat pages = map entry_of (drop (k + n) P)"
          "pages \<noteq> []" "length (last pages) < n"
          "\<forall>p \<in> set (butlast pages). length p = n"
      unfolding P_def by blast
    have q: "query_all now tr n k = Some (map entry_of slice # pages)"
      by (subst query_all.simps) (simp add: page full ps(1))
    have split: "slice @ drop (k + n) P = drop k P"
      unfolding slice_def by (metis add.commute append_take_drop_id drop_drop)
    have cc: "concat (map entry_of slice # pages) = map entry_of (drop k P)"
      using ps(2) split by (metis concat.simps(2) map_append)
    show ?thesis
      using q cc ps(3,4,5) full by (auto simp: P_def)
  qed
qed

lemma local_ids:
  "map pr_roomId (map (\<lambda>(roomId, r). \<lparr>pr_roomId = roomId, pr_metadata = metadata r,
       pr_entryRelay = entryRelay r\<rparr>) xs) = map fst xs"
  by (induction xs) auto

lemma federated_ids:
  "map pr_roomId (map (\<lambda>(roomId, r). \<lparr>pr_roomId = roomId, pr_metadata = f_metadata r,
       pr_entryRelay = f_entryRelay r\<rparr>) xs) = map fst xs"
  by (induction xs) auto

lemma publicRooms_ids_eq:
  "map pr_roomId (publicRooms now tr) =
     map fst (filter (\<lambda>(roomId, r). \<not> isPrivate r \<and> \<not> expiresAt r \<le> now) (rooms tr))
     @ map fst (filter (\<lambda>(roomId, r). \<not> f_expiresAt r \<le> of_int now \<and> \<not> map_has (rooms tr) roomId)
          (federatedRooms tr))"
  unfolding publicRooms_def map_append local_ids federated_ids ..

lemma publicRooms_distinct:
  assumes "distinct (map fst (rooms tr))" "distinct (map fst (federatedRooms tr))"
  shows "distinct (map pr_roomId (publicRooms now tr))"
proof -
  have d1: "distinct (map fst (filter P (rooms tr)))" for P
    using assms(1) by (simp add: distinct_map_filter)
  have d2: "distinct (map fst (filter P (federatedRooms tr)))" for P
    using assms(2) by (simp add: distinct_map_filter)
  show ?thesis
    unfolding publicRooms_ids_eq
    by (auto simp: d1 d2 map_has_def map_of_eq_None_iff image_iff)
qed

lemma publicRooms_ids:
  assumes "distinct (map fst (rooms tr))" "distinct (map fst (federatedRooms tr))"
  shows "(rid \<in> set (map pr_roomId (publicRooms now tr))) =
         ((\<exists>r. map_of (rooms tr) rid = Some r \<and> \<not> isPrivate r \<and> now < expiresAt r) \<or>
          (map_of (rooms tr) rid = None \<and>
             (\<exists>f. map_of (federatedRooms tr) rid = Some f \<and> of_int now < f_expiresAt f)))"
  using assms
  unfolding publicRooms_ids_eq
  by (auto simp: map_has_def image_iff not_le dest: map_of_SomeD intro: map_of_is_SomeI)

lemma ex_directory_public:
  "publicRooms 1000 ex_directory =
     [\<lparr>pr_roomId = ''aa'', pr_metadata = [0x01, 0x02], pr_entryRelay = [0x77, 0x73, 0x73]\<rparr>,
      \<lparr>pr_roomId = ''dd'', pr_metadata = [0x01, 0x02], pr_entryRelay = [0x77, 0x73, 0x73]\<rparr>,
      \<lparr>pr_roomId = ''ee'', pr_metadata = [0x03], pr_entryRelay = [0x77, 0x73]\<rparr>]"
  by (simp add: publicRooms_def ex_directory_def mk_room_def mk_federated_def map_has_def)

text \<open>
  Paging when every public room can be written to the wire.  Take a tracker whose maps have
  unique keys and whose public rooms have relay and metadata of at most 65535 bytes each
  (fewer than 2^32 rooms).  A client that starts at cursor 0 with a count between 1 and 100
  and passes each returned next cursor terminates; its pages, concatenated, are the entries
  of the public rooms in order, every page but the last holds \<open>count\<close> entries and the last
  holds fewer.  The public rooms are the local rooms that are neither private nor expired,
  with their own metadata and relay, and the unexpired federated rooms whose key is not a
  key of the local map, with theirs (\<open>publicRooms_content\<close>); their keys are pairwise distinct
  (\<open>publicRooms_distinct\<close>).  A requested count above 100 gets the response of a count of 100.
\<close>

lemma publicRooms_content:
  assumes "distinct (map fst (rooms tr))" "distinct (map fst (federatedRooms tr))"
  shows "(p \<in> set (publicRooms now tr)) =
         ((\<exists>r. map_of (rooms tr) (pr_roomId p) = Some r \<and> \<not> isPrivate r \<and> now < expiresAt r \<and>
               pr_metadata p = metadata r \<and> pr_entryRelay p = entryRelay r) \<or>
          (map_of (rooms tr) (pr_roomId p) = None \<and>
             (\<exists>f. map_of (federatedRooms tr) (pr_roomId p) = Some f \<and> of_int now < f_expiresAt f \<and>
                  pr_metadata p = f_metadata f \<and> pr_entryRelay p = f_entryRelay f)))"
proof -
  have l: "((k, v) \<in> set (rooms tr)) = (map_of (rooms tr) k = Some v)" for k v
    using assms(1) by (auto dest: map_of_SomeD intro: map_of_is_SomeI)
  have f: "((k, v) \<in> set (federatedRooms tr)) = (map_of (federatedRooms tr) k = Some v)" for k v
    using assms(2) by (auto dest: map_of_SomeD intro: map_of_is_SomeI)
  show ?thesis
    unfolding publicRooms_def
    by (cases p) (auto simp: l f map_has_def not_le image_iff)
qed

lemma query_pagination_encodable:
  assumes count: "1 \<le> count" "count \<le> 100"
      and fits: "\<forall>p \<in> set (publicRooms now tr). fits_wire p"
      and size: "length (publicRooms now tr) < 4294967296"
  shows "\<exists>pages. query_all now tr count 0 = Some pages \<and>
            concat pages = map entry_of (publicRooms now tr) \<and>
            pages \<noteq> [] \<and> length (last pages) < count \<and>
            (\<forall>p \<in> set (butlast pages). length p = count)"
  using query_all_from[OF count fits size, of 0] by simp

lemma handleQuery_clamp:
  assumes big: "100 < c" "c < 65536"
      and cur: "cursor < 4294967296"
  shows "handleQuery now tr (query_message cursor c) = handleQuery now tr (query_message cursor 100)"
proof -
  have rc: "(length (query_message cursor c) < 7) = False"
    "readUInt32BE (query_message cursor c) 1 = cursor"
    "(if readUInt16BE (query_message cursor c) 5 > 100 then 100
      else readUInt16BE (query_message cursor c) 5) = 100"
    using read_query_message[OF cur big(2)] big(1) by simp_all
  have r100: "(length (query_message cursor 100) < 7) = False"
    "readUInt32BE (query_message cursor 100) 1 = cursor"
    "(if readUInt16BE (query_message cursor 100) 5 > 100 then 100
      else readUInt16BE (query_message cursor 100) 5) = 100"
    using read_query_message[OF cur, of 100] by simp_all
  show ?thesis
    unfolding handleQuery_def Let_def rc r100 by (rule refl)
qed

lemma ex_directory_pages:
  "query_all 1000 ex_directory 2 0 =
     Some [[entry_of \<lparr>pr_roomId = ''aa'', pr_metadata = [0x01, 0x02], pr_entryRelay = [0x77, 0x73, 0x73]\<rparr>,
            entry_of \<lparr>pr_roomId = ''dd'', pr_metadata = [0x01, 0x02], pr_entryRelay = [0x77, 0x73, 0x73]\<rparr>],
           [entry_of \<lparr>pr_roomId = ''ee'', pr_metadata = [0x03], pr_entryRelay = [0x77, 0x73]\<rparr>]]"
proof -
  have fits: "\<forall>p \<in> set (publicRooms 1000 ex_directory). fits_wire p"
    by (simp add: ex_directory_public fits_wire_def)
  have size: "length (publicRooms 1000 ex_directory) < 4294967296"
    by (simp add: ex_directory_public)
  have p0: "handleQuery 1000 ex_directory (query_message 0 2) = Inr (Some \<lparr>nextCursor = 2, roomCount = 2,
      entries = map entry_of (take 2 (publicRooms 1000 ex_directory))\<rparr>)"
    using handleQuery_page[OF _ _ fits size, of 0 2] by (simp add: ex_directory_public)
  have p2: "handleQuery 1000 ex_directory (query_message 2 2) = Inr (Some \<lparr>nextCursor = 3, roomCount = 1,
      entries = map entry_of (drop 2 (publicRooms 1000 ex_directory))\<rparr>)"
    using handleQuery_page[OF _ _ fits size, of 2 2] by (simp add: ex_directory_public)
  show ?thesis
    apply (subst query_all.simps)
    apply (simp add: p0)
    apply (subst query_all.simps)
    apply (simp add: p2 ex_directory_public)
    done
qed

lemma ex_big_text_facts:
  "ex_big_text \<noteq> []" "length (ex_zero_base64 ex_big_text) = 65538"
  by (simp_all add: ex_big_text_def ex_zero_base64_def)

lemma ex_room_id_facts:
  "ex_room_id \<noteq> []" "ex_upper_id \<noteq> []" "ex_upper_id \<noteq> ex_room_id"
  "from_hex ex_room_id = replicate 32 0xAB" "from_hex ex_upper_id = replicate 32 0xAB"
  by code_simp+

lemma ex_oversize_state:
  "ex_oversize = ex_empty_tracker
     \<lparr>federatedRooms := [(ex_room_id, \<lparr>f_metadata = ex_zero_base64 ex_big_text,
           f_entryRelay = [0x77, 0x73, 0x73], sourceRelay = ''wss://r2'', f_expiresAt = 181000\<rparr>)],
      persistRoom_calls := [\<lparr>db_roomId = ex_room_id, db_metadata = ex_zero_base64 ex_big_text,
           db_entryRelay = [0x77, 0x73, 0x73], db_isPrivate = False, db_federated = True,
           db_sourceRelay = ''wss://r2'', db_expiresAt = 181000\<rparr>]\<rparr>"
  by (simp add: ex_oversize_def setFederatedRooms_def federate_one_def ex_empty_tracker_def
      ex_big_list_def map_has_def map_set_def ex_big_text_facts ex_room_id_facts)

lemma ex_oversize_public:
  "publicRooms 2000 ex_oversize =
     [\<lparr>pr_roomId = ex_room_id, pr_metadata = ex_zero_base64 ex_big_text,
       pr_entryRelay = [0x77, 0x73, 0x73]\<rparr>]"
  by (simp add: ex_oversize_state publicRooms_def ex_empty_tracker_def map_has_def)

lemma ex_oversize_encode:
  "encode_entry \<lparr>pr_roomId = ex_room_id, pr_metadata = ex_zero_base64 ex_big_text,
       pr_entryRelay = [0x77, 0x73, 0x73]\<rparr> = Inl RangeError"
  by (simp add: encode_entry_def writeUInt16BE_def ex_big_text_facts)

lemma ex_shadowed_state:
  "ex_shadowed = ex_tracker
     \<lparr>federatedRooms := [(ex_upper_id, \<lparr>f_metadata = [0x01],
           f_entryRelay = [0x77, 0x73, 0x73], sourceRelay = ''wss://r2'', f_expiresAt = 181000\<rparr>)],
      persistRoom_calls := [\<lparr>db_roomId = ex_upper_id, db_metadata = [0x01],
           db_entryRelay = [0x77, 0x73, 0x73], db_isPrivate = False, db_federated = True,
           db_sourceRelay = ''wss://r2'', db_expiresAt = 181000\<rparr>]\<rparr>"
  by (simp add: ex_shadowed_def setFederatedRooms_def federate_one_def ex_tracker_def
      map_has_def map_set_def ex_room_id_facts ex_base64_def)

lemma ex_shadowed_public:
  "publicRooms 2000 ex_shadowed =
     [\<lparr>pr_roomId = ex_room_id, pr_metadata = [0x01], pr_entryRelay = [0x77, 0x73]\<rparr>,
      \<lparr>pr_roomId = ex_upper_id, pr_metadata = [0x01], pr_entryRelay = [0x77, 0x73, 0x73]\<rparr>]"
  by (simp add: ex_shadowed_state publicRooms_def ex_tracker_def ex_room_def map_has_def
      ex_room_id_facts)

text \<open>
  The same defect shows in the room ids.  \<open>setFederatedRooms\<close> takes the peer's id as it
  comes, and \<open>rooms.has\<close> compares strings: with a local room and a federated room whose id is
  the same hexadecimal number in upper case, one page carries both, and
  \<open>Buffer.from(roomId, 'hex')\<close> gives the two entries the same 32 bytes.
\<close>

lemma query_same_id_twice:
  "\<exists>r. handleQuery 2000 ex_shadowed (query_message 0 10) = Inr (Some r) \<and>
       map e_roomId (entries r) = [replicate 32 0xAB, replicate 32 0xAB]"
proof -
  have fits: "\<forall>p \<in> set (publicRooms 2000 ex_shadowed). fits_wire p"
    by (simp add: ex_shadowed_public fits_wire_def)
  have size: "length (publicRooms 2000 ex_shadowed) < 4294967296"
    by (simp add: ex_shadowed_public)
  show ?thesis
    using handleQuery_page[OF _ _ fits size, of 0 10]
    by (simp add: ex_shadowed_public entry_of_def ex_room_id_facts)
qed

text \<open>
  Claim C2.  The claim says that for every set of public rooms, paging from cursor 0 with a
  count between 1 and 100 yields every public room exactly once and terminates.  Paging does
  so when every room can be written to the wire (\<open>query_pagination_encodable\<close>), and a count
  above 100 is clamped (\<open>handleQuery_clamp\<close>).  But \<open>setFederatedRooms\<close> stores what a peer
  supplies without the size checks that the HTTP registration makes, and \<open>handleQuery\<close> writes
  the metadata length with \<open>writeUInt16BE\<close>.  After a peer has supplied one room with 65538
  bytes of metadata, that room is a public room of the tracker, the QUERY for cursor 0 and
  count 10 throws a \<open>RangeError\<close> instead of returning a page, and the client never gets
  the room.
\<close>

theorem query_oversize_federated_room:
  "map pr_roomId (publicRooms 2000 ex_oversize) = [ex_room_id] \<and>
   handleQuery 2000 ex_oversize (query_message 0 10) = Inl RangeError \<and>
   query_all 2000 ex_oversize 10 0 = None"
proof -
  have p: "map pr_roomId (publicRooms 2000 ex_oversize) = [ex_room_id]"
    by (simp add: ex_oversize_public)
  have r: "(length (query_message 0 10) < 7) = False" "readUInt32BE (query_message 0 10) 1 = 0"
    "(if readUInt16BE (query_message 0 10) 5 > 100 then 100
      else readUInt16BE (query_message 0 10) 5) = 10"
    using read_query_message[of 0 10] by simp_all
  have h: "handleQuery 2000 ex_oversize (query_message 0 10) = Inl RangeError"
    unfolding handleQuery_def Let_def r ex_oversize_public
    by (simp add: ex_oversize_encode)
  have "query_all 2000 ex_oversize 10 0 = None"
    by (subst query_all.simps) (simp add: h)
  with p h show ?thesis by simp
qed

section \<open>The room tracker: federation\<close>

lemma federate_one_rooms [simp]:
  "rooms (federate_one b s e tr p) = rooms tr"
  "roomTtlMs (federate_one b s e tr p) = roomTtlMs tr"
  "circuitSessions (federate_one b s e tr p) = circuitSessions tr"
  by (simp_all add: federate_one_def)


lemma foldl_federate_rooms [simp]:
  "rooms (foldl (federate_one b s e) tr ps) = rooms tr"
  by (induction ps arbitrary: tr) simp_all



lemma keep_other_sources:
  "map_of (filter (\<lambda>(roomId, r). sourceRelay r \<noteq> source) fs) rid =
     (case map_of fs rid of None \<Rightarrow> None
      | Some f \<Rightarrow> if sourceRelay f \<noteq> source then Some f else
           map_of (filter (\<lambda>(roomId, r). sourceRelay r \<noteq> source) fs) rid)"
  by (induction fs) (auto split: option.splits)






section \<open>The packet dispatcher\<close>

lemma ex_packet_facts:
  "length ex_short_packet = 44" "length ex_chaff_packet = 512" "ex_chaff_packet ! 0 = 0xFF"
  by (simp_all add: ex_short_packet_def ex_chaff_packet_def)

lemma ex_handshake_parse:
  "length ex_handshake_packet = 60" "ex_handshake_packet ! 0 = 0"
  "readUInt32BE ex_handshake_packet NONCE_BYTES = 9"
  "subarray ex_handshake_packet (NONCE_BYTES + 4) (NONCE_BYTES + 4 + KX_PK_BYTES) = replicate 32 0x33"
  by (simp_all add: ex_handshake_packet_def readUInt32BE_def NONCE_BYTES_def KX_PK_BYTES_def
      nth_append subarray_def)

lemma ex_handshake_lookup:
  "getCircuit 1000 (table ex_relay) 9 = (None, table ex_relay)"
  by (simp add: getCircuit_def ex_relay_def ex_registry_def)

lemma ex_handshake_result:
  "handleHandshake 1000 ex_sodium ex_relay ex_handshake_packet 9 3 =
     ex_relay\<lparr>table := (ex_registry 5 7)\<lparr>circuits := circuits (ex_registry 5 7) @
                 [(9, \<lparr>circuitId = 9, rx = replicate 32 0x33, tx = replicate 32 0x11, inboundWs = 3,
                       outboundWs = None, lastActivity = 1000, nextHop = None,
                       rendezvousPairId = None\<rparr>)]\<rparr>,
              sent := [(3, padPacket ex_sodium
                 (MAGIC @ replicate 32 0x11 @ replicate 24 0x2A @ [0, 0, 0, 9]
                    @ (0x02 # replicate 32 0x11) @ replicate 16 0) 512)]\<rparr>"
  unfolding handleHandshake_def Let_def ex_handshake_parse
  apply (simp add: ex_sodium_def ex_relay_def registerCircuit_def ex_registry_def map_size_def
      map_set_def NONCE_BYTES_def KX_PK_BYTES_def alloc_copy_def encrypt_def subarray_def
      writeUInt32BE_bytes_def MSG_HANDSHAKE_REPLY_def)
  done



text \<open>
  The dispatcher does act on other packets: a 60-byte packet for the unregistered circuit id
  9 is taken as a handshake, which registers the circuit and sends one padded reply.
\<close>

lemma ex_handshake_registers:
  "handlePacket 1000 ex_sodium ex_relay ex_handshake_packet 3 =
     (None, handleHandshake 1000 ex_sodium ex_relay ex_handshake_packet 9 3)"
  and "map fst (circuits (table (handleHandshake 1000 ex_sodium ex_relay ex_handshake_packet 9 3)))
         = [5, 7, 9]"
  and "map (\<lambda>(w, b). (w, length b))
         (sent (handleHandshake 1000 ex_sodium ex_relay ex_handshake_packet 9 3)) = [(3, 512)]"
proof -
  have nine: "getCircuit 1000 (table ex_relay) (of_nat 9) = (None, table ex_relay)"
    using ex_handshake_lookup by simp
  show "handlePacket 1000 ex_sodium ex_relay ex_handshake_packet 3 =
     (None, handleHandshake 1000 ex_sodium ex_relay ex_handshake_packet 9 3)"
    unfolding handlePacket_def Let_def ex_handshake_parse nine
    by (simp add: NONCE_BYTES_def MAC_BYTES_def)
  show "map fst (circuits (table (handleHandshake 1000 ex_sodium ex_relay ex_handshake_packet 9 3)))
         = [5, 7, 9]"
    by (simp add: ex_handshake_result ex_registry_def)
  show "map (\<lambda>(w, b). (w, length b))
         (sent (handleHandshake 1000 ex_sodium ex_relay ex_handshake_packet 9 3)) = [(3, 512)]"
    unfolding ex_handshake_result by (simp add: padPacket_def MAGIC_def ex_sodium_def)
qed

text \<open>
  Claim C8.  A packet shorter than 45 bytes (nonce 24 + circuit id 4 + tag 16 + 1) or
  whose first byte is the chaff tag 0xFF leaves the relay exactly as it was: the circuit
  registry with every circuit in it, the list of sent buffers (no reply) and the queue of
  pending dispatches are unchanged, and nothing is thrown.
\<close>

theorem handlePacket_ignores_short_and_chaff:
  assumes "length rawData < 45 \<or> rawData ! 0 = 0xFF"
  shows "handlePacket now sod st rawData ws = (None, st)"
  using assms
  by (auto simp: handlePacket_def NONCE_BYTES_def MAC_BYTES_def)

theorem handlePacket_ignores_short_and_chaff_witness:
  "length ex_short_packet < 45 \<and> ex_chaff_packet ! 0 = 0xFF \<and>
   handlePacket 1000 ex_sodium ex_relay ex_short_packet 3 = (None, ex_relay) \<and>
   handlePacket 1000 ex_sodium ex_relay ex_chaff_packet 3 = (None, ex_relay)"
proof -
  have s: "length ex_short_packet < 45 \<or> ex_short_packet ! 0 = 0xFF"
    by (simp add: ex_packet_facts)
  have c: "length ex_chaff_packet < 45 \<or> ex_chaff_packet ! 0 = 0xFF"
    by (simp add: ex_packet_facts)
  show ?thesis
    using handlePacket_ignores_short_and_chaff [OF s, of 1000 ex_sodium ex_relay 3]
      handlePacket_ignores_short_and_chaff [OF c, of 1000 ex_sodium ex_relay 3]
    by (simp add: ex_packet_facts)
qed

section \<open>Gossip: announcement verification\<close>

text \<open>
  What \<open>verifyAnnouncement\<close> accepts, exactly: no falsy field, a \<open>ws://\<close> or \<open>wss://\<close> prefix,
  at most 256 characters, two keys of 64 hexadecimal characters, a timestamp in
  \<open>[now - 600000, now + 60000]\<close>, a URL that \<open>isInternalUrl\<close> does not flag, and a signature
  over \<open>url|pk|ts\<close> that verifies under the announced signing key.
\<close>

lemma verifyAnnouncement_iff:
  "verifyAnnouncement url_hostname verify_detached now a =
     (a_url a \<noteq> [] \<and> a_pk a \<noteq> [] \<and> a_signPk a \<noteq> [] \<and> a_ts a \<noteq> 0 \<and> a_sig a \<noteq> [] \<and>
      (startsWith (a_url a) ''wss://'' \<or> startsWith (a_url a) ''ws://'') \<and>
      length (a_url a) \<le> 256 \<and> hex64 (a_pk a) \<and> hex64 (a_signPk a) \<and>
      now - 600000 \<le> a_ts a \<and> a_ts a \<le> now + 60000 \<and>
      \<not> isInternalUrl url_hostname (a_url a) \<and>
      verify_detached (from_hex (a_sig a))
        (a_url a @ ''|'' @ a_pk a @ ''|'' @ number_text (a_ts a)) (from_hex (a_signPk a)))"
  by (auto simp: verifyAnnouncement_def ANNOUNCE_MAX_AGE_MS_def ANNOUNCE_MAX_FUTURE_MS_def)

text \<open>An announcement 11 minutes old is rejected, and so is one whose host is 127.0.0.1.\<close>

lemma verifyAnnouncement_stale:
  "a_ts a = now - 660000 \<Longrightarrow> \<not> verifyAnnouncement url_hostname verify_detached now a"
  by (simp add: verifyAnnouncement_iff)

lemma isInternalUrl_127_0_0_1:
  "url_hostname (replace_prefix ''ws:'' ''http:'' (replace_prefix ''wss:'' ''https:'' url))
     = Some ''127.0.0.1'' \<Longrightarrow> isInternalUrl url_hostname url"
  by (simp add: isInternalUrl_def)

lemma verifyAnnouncement_127_0_0_1:
  "url_hostname (replace_prefix ''ws:'' ''http:'' (replace_prefix ''wss:'' ''https:'' (a_url a)))
     = Some ''127.0.0.1'' \<Longrightarrow> \<not> verifyAnnouncement url_hostname verify_detached now a"
  by (simp add: verifyAnnouncement_iff isInternalUrl_127_0_0_1)

lemma loopback_url_rewrite:
  "replace_prefix ''ws:'' ''http:'' (replace_prefix ''wss:'' ''https:'' ''ws://127.0.0.2:9000'')
     = ''http://127.0.0.2:9000''"
  by (simp add: replace_prefix_def startsWith_def)

lemma not_internal_127_0_0_2:
  assumes "url_hostname ''http://127.0.0.2:9000'' = Some ''127.0.0.2''"
  shows "\<not> isInternalUrl url_hostname ''ws://127.0.0.2:9000''"
  using assms
  by (simp add: isInternalUrl_def loopback_url_rewrite startsWith_def private_172_def)

text \<open>
  Claim C5.  The claim makes acceptance equivalent to a list of conditions, one of them that
  the URL does not point at a loopback, private or link-local host.  \<open>isInternalUrl\<close> compares
  the host name with four literals and five prefixes only.  For the URL
  \<open>ws://127.0.0.2:9000\<close>, whose host is in the loopback block 127.0.0.0/8, it answers false:
  with any URL parser that gives this URL the host name \<open>127.0.0.2\<close>, an announcement for it
  with well-formed keys, a fresh timestamp and a signature that verifies is accepted.
\<close>

theorem verifyAnnouncement_accepts_loopback:
  assumes host: "url_hostname ''http://127.0.0.2:9000'' = Some ''127.0.0.2''"
      and keys: "hex64 pk" "hex64 spk"
      and fresh: "now - 600000 \<le> ts" "ts \<le> now + 60000" "ts \<noteq> 0"
      and signed: "sg \<noteq> []"
                  "verify_detached (from_hex sg)
                     (''ws://127.0.0.2:9000'' @ ''|'' @ pk @ ''|'' @ number_text ts) (from_hex spk)"
  shows "verifyAnnouncement url_hostname verify_detached now
           \<lparr>a_url = ''ws://127.0.0.2:9000'', a_pk = pk, a_signPk = spk, a_ts = ts, a_sig = sg\<rparr>"
proof -
  have ne: "pk \<noteq> []" "spk \<noteq> []" using keys by (auto simp: hex64_def)
  have pre: "startsWith ''ws://127.0.0.2:9000'' ''ws://''" by (simp add: startsWith_def)
  show ?thesis
    unfolding verifyAnnouncement_iff
    using ne pre keys fresh signed not_internal_127_0_0_2[of url_hostname, OF host] by simp
qed

lemma ex_gossip_facts:
  "ex_hostname ''http://127.0.0.2:9000'' = Some ''127.0.0.2''"
  "ex_hostname ''http://127.0.0.1:9000'' = Some ''127.0.0.1''"
  "hex64 ex_key" "ex_signature \<noteq> []" "from_hex ex_signature = replicate 64 0x5A"
  by code_simp+

theorem verifyAnnouncement_accepts_loopback_witness:
  "ex_hostname ''http://127.0.0.2:9000'' = Some ''127.0.0.2'' \<and> hex64 ex_key \<and>
   ex_signature \<noteq> [] \<and>
   ex_verify (from_hex ex_signature)
     (''ws://127.0.0.2:9000'' @ ''|'' @ ex_key @ ''|'' @ number_text 1700000000000) (from_hex ex_key) \<and>
   verifyAnnouncement ex_hostname ex_verify 1700000001000
     (ex_announcement ''ws://127.0.0.2:9000'' 1700000000000)"
proof -
  have v: "ex_verify (from_hex ex_signature)
     (''ws://127.0.0.2:9000'' @ ''|'' @ ex_key @ ''|'' @ number_text 1700000000000) (from_hex ex_key)"
    by (simp add: ex_verify_def ex_gossip_facts)
  have f: "(1700000001000::int) - 600000 \<le> 1700000000000" "(1700000000000::int) \<le> 1700000001000 + 60000"
    "(1700000000000::int) \<noteq> 0"
    by simp_all
  from verifyAnnouncement_accepts_loopback
    [of ex_hostname ex_key ex_key 1700000001000 1700000000000 ex_signature ex_verify,
     OF ex_gossip_facts(1) ex_gossip_facts(3) ex_gossip_facts(3) f ex_gossip_facts(4) v]
  show ?thesis
    using v by (simp add: ex_announcement_def ex_gossip_facts)
qed

text \<open>The same announcement for \<open>ws://127.0.0.1:9000\<close> is rejected.\<close>

lemma ex_rejects_127_0_0_1:
  "\<not> verifyAnnouncement ex_hostname ex_verify 1700000001000
       (ex_announcement ''ws://127.0.0.1:9000'' 1700000000000)"
proof -
  have "replace_prefix ''ws:'' ''http:'' (replace_prefix ''wss:'' ''https:'' ''ws://127.0.0.1:9000'')
     = ''http://127.0.0.1:9000''"
    by (simp add: replace_prefix_def startsWith_def)
  then show ?thesis
    using verifyAnnouncement_127_0_0_1[of ex_hostname "ex_announcement ''ws://127.0.0.1:9000'' 1700000000000"]
    by (simp add: ex_announcement_def ex_gossip_facts)
qed

end
